theory Spec2Isabelle
  imports Main
begin

section \<open>Raster streams\<close>

text \<open>
  A stream (\<open>vs.VideoNode\<close>) is a format descriptor, the dimensions of its first plane
  and the list of its frames. A frame is the list of its planes, a plane the list of its
  rows, a row the list of its samples: \<open>frames c ! n ! p ! y ! x\<close>. Samples are integers;
  a float format takes part only through its peak value 1. A stream of unknown format
  has \<open>format = None\<close>, one of unknown resolution has width or height 0, as in the
  runtime.
\<close>

type_synonym plane = "int list list"
type_synonym frame = "plane list"

datatype color_family = GRAY | RGB | YUV

datatype sample_type = INTEGER | FLOAT

record video_format =
  color_family :: color_family
  sample_type :: sample_type
  bits_per_sample :: nat
  subsampling_w :: nat
  subsampling_h :: nat

record clip =
  format :: "video_format option"
  width :: nat
  height :: nat
  frames :: "frame list"

datatype error =
    CustomValueError string
  | FramesLengthError string
  | VariableFormatError
  | VariableResolutionError
  | IndexError string
  | ValueError string
  | ClipLengthError string
  | VSError string

definition num_frames :: "clip \<Rightarrow> int" where
  "num_frames c = int (length (frames c))"

definition num_planes :: "video_format \<Rightarrow> nat" where
  "num_planes f = (if color_family f = GRAY then 1 else 3)"

definition plane_width :: "video_format \<Rightarrow> nat \<Rightarrow> nat \<Rightarrow> nat" where
  "plane_width f w p = (if p = 0 then w else w div 2 ^ subsampling_w f)"

definition plane_height :: "video_format \<Rightarrow> nat \<Rightarrow> nat \<Rightarrow> nat" where
  "plane_height f h p = (if p = 0 then h else h div 2 ^ subsampling_h f)"

definition pixel :: "clip \<Rightarrow> nat \<Rightarrow> nat \<Rightarrow> nat \<Rightarrow> nat \<Rightarrow> int" where
  "pixel c n p x y = frames c ! n ! p ! y ! x"

text \<open>
  \<open>vstools.get_peak_value\<close>: the largest sample of a format, \<open>2 ^ bits - 1\<close> for integer
  samples and 1 for float samples.
\<close>

definition get_peak_value :: "video_format \<Rightarrow> int" where
  "get_peak_value f =
     (case sample_type f of INTEGER \<Rightarrow> 2 ^ bits_per_sample f - 1 | FLOAT \<Rightarrow> 1)"

text \<open>
  \<open>vstools.check_variable\<close>: raises on a stream of unknown format or resolution; the
  callers go on with the concrete format.
\<close>

definition check_variable :: "clip \<Rightarrow> error + video_format" where
  "check_variable c =
     (case format c of
        None \<Rightarrow> Inl VariableFormatError
      | Some f \<Rightarrow>
          if width c = 0 \<or> height c = 0 then Inl VariableResolutionError else Inr f)"

section \<open>Runtime primitives\<close>

text \<open>
  The primitives of the frame server that the source calls (\<open>std.BlankClip\<close>,
  \<open>std.Crop\<close>, \<open>std.AddBorders\<close>, \<open>std.Invert\<close>, \<open>std.Loop\<close>, \<open>std.Limiter\<close>, the
  expression evaluator), by their documented behaviour. Each rejects arguments outside
  its domain with a runtime error, \<open>VSError\<close>.
\<close>

definition black :: "video_format \<Rightarrow> nat \<Rightarrow> int" where
  "black f p =
     (if color_family f = YUV \<and> p \<noteq> 0 \<and> sample_type f = INTEGER
      then 2 ^ (bits_per_sample f - 1) else 0)"

definition blank_frame :: "video_format \<Rightarrow> nat \<Rightarrow> nat \<Rightarrow> (nat \<Rightarrow> int) \<Rightarrow> frame" where
  "blank_frame f w h color =
     map (\<lambda>p. replicate (plane_height f h p) (replicate (plane_width f w p) (color p)))
       [0..<num_planes f]"

text \<open>
  \<open>clip.std.BlankClip(width, height, format, length, color, keep=True)\<close>: an argument
  that is \<open>None\<close> is taken from \<open>clip\<close>; \<open>color = None\<close> is black.
\<close>

definition std_BlankClip ::
  "clip \<Rightarrow> int option \<Rightarrow> int option \<Rightarrow> video_format \<Rightarrow> int option \<Rightarrow> int option
     \<Rightarrow> error + clip" where
  "std_BlankClip c w_arg h_arg f length_arg color =
     (let w = (case w_arg of None \<Rightarrow> int (width c) | Some w \<Rightarrow> w);
          h = (case h_arg of None \<Rightarrow> int (height c) | Some h \<Rightarrow> h);
          n = (case length_arg of None \<Rightarrow> num_frames c | Some n \<Rightarrow> n)
      in if w \<le> 0 \<or> h \<le> 0 then Inl (VSError ''BlankClip: invalid width or height'')
         else if n \<le> 0 then Inl (VSError ''BlankClip: invalid length'')
         else Inr \<lparr>format = Some f, width = nat w, height = nat h,
                   frames = replicate (nat n)
                     (blank_frame f (nat w) (nat h)
                        (case color of None \<Rightarrow> black f | Some v \<Rightarrow> (\<lambda>p. v)))\<rparr>)"

definition pad_plane :: "nat \<Rightarrow> nat \<Rightarrow> nat \<Rightarrow> nat \<Rightarrow> nat \<Rightarrow> int \<Rightarrow> plane \<Rightarrow> plane" where
  "pad_plane new_w l r t b col pl =
     replicate t (replicate new_w col)
       @ map (\<lambda>row. replicate l col @ row @ replicate r col) pl
       @ replicate b (replicate new_w col)"

definition crop_plane :: "nat \<Rightarrow> nat \<Rightarrow> nat \<Rightarrow> nat \<Rightarrow> plane \<Rightarrow> plane" where
  "crop_plane l r t b pl =
     map (\<lambda>row. take (length row - l - r) (drop l row)) (take (length pl - t - b) (drop t pl))"

definition aligned :: "video_format \<Rightarrow> int \<Rightarrow> int \<Rightarrow> int \<Rightarrow> int \<Rightarrow> bool" where
  "aligned f l r t b =
     (l mod 2 ^ subsampling_w f = 0 \<and> r mod 2 ^ subsampling_w f = 0
      \<and> t mod 2 ^ subsampling_h f = 0 \<and> b mod 2 ^ subsampling_h f = 0)"

definition shift_w :: "video_format \<Rightarrow> nat \<Rightarrow> int \<Rightarrow> nat" where
  "shift_w f p v = plane_width f (nat v) p"

definition shift_h :: "video_format \<Rightarrow> nat \<Rightarrow> int \<Rightarrow> nat" where
  "shift_h f p v = plane_height f (nat v) p"

definition std_AddBorders :: "clip \<Rightarrow> int \<Rightarrow> int \<Rightarrow> int \<Rightarrow> int \<Rightarrow> error + clip" where
  "std_AddBorders c l r t b =
     (case check_variable c of
        Inl e \<Rightarrow> Inl (VSError ''AddBorders: input needs to be constant format and size'')
      | Inr f \<Rightarrow>
          if l < 0 \<or> r < 0 \<or> t < 0 \<or> b < 0
          then Inl (VSError ''AddBorders: border size to add must not be negative'')
          else if \<not> aligned f l r t b
          then Inl (VSError ''AddBorders: borders must respect the subsampling'')
          else Inr (c\<lparr>width := width c + nat l + nat r, height := height c + nat t + nat b,
                      frames := map (\<lambda>fr. map (\<lambda>p.
                          pad_plane (plane_width f (width c + nat l + nat r) p)
                            (shift_w f p l) (shift_w f p r) (shift_h f p t) (shift_h f p b)
                            (black f p) (fr ! p)) [0..<length fr]) (frames c)\<rparr>))"

definition std_Crop :: "clip \<Rightarrow> int \<Rightarrow> int \<Rightarrow> int \<Rightarrow> int \<Rightarrow> error + clip" where
  "std_Crop c l r t b =
     (case check_variable c of
        Inl e \<Rightarrow> Inl (VSError ''Crop: input clip must have constant format and dimensions'')
      | Inr f \<Rightarrow>
          if l < 0 \<or> r < 0 \<or> t < 0 \<or> b < 0
          then Inl (VSError ''Crop: negative crop'')
          else if l + r \<ge> int (width c) \<or> t + b \<ge> int (height c)
          then Inl (VSError ''Crop: cropped area too large'')
          else if \<not> aligned f l r t b
          then Inl (VSError ''Crop: cropping must respect the subsampling'')
          else Inr (c\<lparr>width := width c - nat l - nat r, height := height c - nat t - nat b,
                      frames := map (\<lambda>fr. map (\<lambda>p.
                          crop_plane (shift_w f p l) (shift_w f p r) (shift_h f p t)
                            (shift_h f p b) (fr ! p)) [0..<length fr]) (frames c)\<rparr>))"

definition std_Invert :: "clip \<Rightarrow> error + clip" where
  "std_Invert c =
     (case format c of
        None \<Rightarrow> Inl (VSError ''Invert: only constant format input supported'')
      | Some f \<Rightarrow>
          Inr (c\<lparr>frames := map (map (map (map (\<lambda>v. get_peak_value f - v)))) (frames c)\<rparr>))"

definition std_Limiter :: "clip \<Rightarrow> error + clip" where
  "std_Limiter c =
     (case format c of
        None \<Rightarrow> Inl (VSError ''Limiter: only constant format input supported'')
      | Some f \<Rightarrow>
          Inr (c\<lparr>frames :=
                   map (map (map (map (\<lambda>v. max 0 (min (get_peak_value f) v))))) (frames c)\<rparr>))"

definition int_max :: int where
  "int_max = 2147483647"

text \<open>
  \<open>clip.std.Loop(times)\<close>; \<open>times = 0\<close> repeats up to the longest stream the runtime
  allows, \<open>int_max\<close> frames. The model puts no other bound on the length of a stream.
\<close>

definition std_Loop :: "clip \<Rightarrow> int \<Rightarrow> error + clip" where
  "std_Loop c count =
     (if count < 0 then Inl (VSError ''Loop: cannot repeat clip a negative number of times'')
      else if count = 0
      then Inr (c\<lparr>frames :=
                     take (nat int_max) (concat (replicate (nat int_max) (frames c)))\<rparr>)
      else Inr (c\<lparr>frames := concat (replicate (nat count) (frames c))\<rparr>))"

section \<open>Per-pixel expressions\<close>

text \<open>
  The source writes an expression as a string of space-separated tokens in reverse
  Polish notation; here it is the list of its tokens. \<open>X\<close> and \<open>Y\<close> are the coordinates
  of the pixel being computed, \<open>x\<close> and \<open>y\<close> the samples of the first and second input
  stream there, \<open>range_max\<close> the peak value of the first stream's format. A comparison
  gives 1 or 0, a value counts as true when positive, and \<open>c a b ?\<close> is \<open>a\<close> when \<open>c\<close> is
  true and \<open>b\<close> otherwise.
\<close>

datatype expr_token =
    Coord_X | Coord_Y | Clip_x | Clip_y | Number int | Range_max
  | Op_lt | Op_gt | Op_or | Op_max | Op_min | Op_ternary

record expr_env =
  env_X :: int
  env_Y :: int
  env_x :: int
  env_y :: int
  env_range_max :: int

fun expr_step :: "expr_env \<Rightarrow> int list \<Rightarrow> expr_token \<Rightarrow> int list" where
  "expr_step e st Coord_X = env_X e # st"
| "expr_step e st Coord_Y = env_Y e # st"
| "expr_step e st Clip_x = env_x e # st"
| "expr_step e st Clip_y = env_y e # st"
| "expr_step e st (Number k) = k # st"
| "expr_step e st Range_max = env_range_max e # st"
| "expr_step e (b # a # st) Op_lt = (if a < b then 1 else 0) # st"
| "expr_step e (b # a # st) Op_gt = (if a > b then 1 else 0) # st"
| "expr_step e (b # a # st) Op_or = (if a > 0 \<or> b > 0 then 1 else 0) # st"
| "expr_step e (b # a # st) Op_max = max a b # st"
| "expr_step e (b # a # st) Op_min = min a b # st"
| "expr_step e (b # a # c # st) Op_ternary = (if c > 0 then a else b) # st"
| "expr_step e st t = st"

definition expr_run :: "expr_env \<Rightarrow> expr_token list \<Rightarrow> int list" where
  "expr_run e toks = foldl (expr_step e) [] toks"

text \<open>
  The evaluator compiles an expression when the filter is created and rejects one
  that underflows the stack, leaves more or less than one value, or reads a stream it
  was not given; \<open>expr_check\<close> is that check, \<open>expr_depth\<close> the stack depth after a
  token.
\<close>

fun expr_depth :: "nat \<Rightarrow> nat \<Rightarrow> expr_token \<Rightarrow> nat option" where
  "expr_depth nclips d Clip_x = (if 1 \<le> nclips then Some (Suc d) else None)"
| "expr_depth nclips d Clip_y = (if 2 \<le> nclips then Some (Suc d) else None)"
| "expr_depth nclips d Op_ternary = (if 3 \<le> d then Some (d - 2) else None)"
| "expr_depth nclips d Coord_X = Some (Suc d)"
| "expr_depth nclips d Coord_Y = Some (Suc d)"
| "expr_depth nclips d (Number k) = Some (Suc d)"
| "expr_depth nclips d Range_max = Some (Suc d)"
| "expr_depth nclips d t = (if 2 \<le> d then Some (d - 1) else None)"

fun expr_check :: "nat \<Rightarrow> nat \<Rightarrow> expr_token list \<Rightarrow> bool" where
  "expr_check nclips d [] = (d = 1)"
| "expr_check nclips d (t # ts) =
     (case expr_depth nclips d t of None \<Rightarrow> False | Some d' \<Rightarrow> expr_check nclips d' ts)"

definition expr_eval :: "expr_env \<Rightarrow> expr_token list \<Rightarrow> int" where
  "expr_eval e toks = (case expr_run e toks of v # st \<Rightarrow> v | [] \<Rightarrow> 0)"

definition expr_plane :: "expr_token list \<Rightarrow> int \<Rightarrow> plane \<Rightarrow> plane \<Rightarrow> plane" where
  "expr_plane toks peak pl pl2 =
     map (\<lambda>row. map (\<lambda>col.
         expr_eval \<lparr>env_X = int col, env_Y = int row, env_x = pl ! row ! col,
                    env_y = pl2 ! row ! col, env_range_max = peak\<rparr> toks)
       [0..<length (pl ! row)]) [0..<length pl]"

text \<open>
  \<open>vsexprtools.norm_expr(clip, expr)\<close> on one stream: every plane of every frame is
  computed by the expression.
\<close>

definition norm_expr :: "clip \<Rightarrow> expr_token list \<Rightarrow> error + clip" where
  "norm_expr c toks =
     (case format c of
        None \<Rightarrow> Inl (VSError ''Expr: only constant format input supported'')
      | Some f \<Rightarrow>
          if \<not> expr_check 1 0 toks then Inl (VSError ''Expr: failed to compile expression'')
          else Inr (c\<lparr>frames :=
                        map (map (\<lambda>pl. expr_plane toks (get_peak_value f) pl pl)) (frames c)\<rparr>))"

section \<open>Rectangular regions\<close>

text \<open>
  The argument \<open>replace\<close> of \<open>_get_region_expr\<close> is an integer or a string of tokens.
\<close>

datatype replace_arg = ReplaceInt int | ReplaceStr "expr_token list"

definition get_region_expr ::
  "clip \<Rightarrow> int \<Rightarrow> int \<Rightarrow> int \<Rightarrow> int \<Rightarrow> replace_arg \<Rightarrow> bool \<Rightarrow> expr_token list" where
  "get_region_expr c left_margin right_margin top_margin bottom_margin replace0 rel =
     (let right = right_margin + 1; bottom = bottom_margin + 1;
          replace = (case replace0 of ReplaceInt k \<Rightarrow> [Clip_x, Number k] | ReplaceStr s \<Rightarrow> s)
      in if rel
         then [Coord_X, Number left_margin, Op_lt, Coord_X, Number right, Op_gt, Op_or,
               Coord_Y, Number top_margin, Op_lt, Coord_Y, Number bottom, Op_gt, Op_or, Op_or]
              @ replace @ [Op_ternary]
         else [Coord_X, Number left_margin, Op_lt, Coord_X, Number (int (width c) - right), Op_gt, Op_or,
               Coord_Y, Number top_margin, Op_lt, Coord_Y, Number (int (height c) - bottom), Op_gt,
               Op_or, Op_or]
              @ replace @ [Op_ternary])"

text \<open>
  \<open>region_rel_mask\<close>; the flag \<open>aka_expr_available\<close> of the source is a parameter.
\<close>

definition region_rel_mask :: "bool \<Rightarrow> clip \<Rightarrow> int \<Rightarrow> int \<Rightarrow> int \<Rightarrow> int \<Rightarrow> error + clip" where
  "region_rel_mask aka_expr_available c left_margin right_margin top_margin bottom_margin =
     (if aka_expr_available
      then norm_expr c (get_region_expr c left_margin right_margin top_margin bottom_margin (ReplaceInt 0) False)
      else case std_Crop c left_margin right_margin top_margin bottom_margin of
             Inl e \<Rightarrow> Inl e
           | Inr cropped \<Rightarrow> std_AddBorders cropped left_margin right_margin top_margin bottom_margin)"

text \<open>
  \<open>squaremask\<close>. The argument \<open>func\<close> of the source only names the caller in error
  messages and is left out.
\<close>

definition squaremask ::
  "bool \<Rightarrow> clip \<Rightarrow> int \<Rightarrow> int \<Rightarrow> int \<Rightarrow> int \<Rightarrow> bool \<Rightarrow> error + clip" where
  "squaremask aka_expr_available c w h offset_x offset_y invert =
     (case check_variable c of
        Inl e \<Rightarrow> Inl e
      | Inr f \<Rightarrow>
          (let mask_format = f\<lparr>color_family := GRAY, subsampling_w := 0, subsampling_h := 0\<rparr>
           in if offset_x + w > int (width c) \<or> offset_y + h > int (height c)
              then Inl (CustomValueError ''mask exceeds clip size!'')
              else (case
                (if aka_expr_available
                 then (case std_BlankClip c None None mask_format (Some 1) (Some 0) of
                         Inl e \<Rightarrow> Inl e
                       | Inr base_clip \<Rightarrow>
                           norm_expr base_clip
                             (get_region_expr c offset_x (int (width c) - w - offset_x)
                                offset_y (int (height c) - h - offset_y)
                                (ReplaceStr (if invert then [Range_max, Clip_x]
                                             else [Clip_x, Range_max])) False))
                 else (case std_BlankClip c (Some w) (Some h) mask_format (Some 1)
                              (Some (get_peak_value f)) of
                         Inl e \<Rightarrow> Inl e
                       | Inr base_clip \<Rightarrow>
                           (case std_AddBorders base_clip offset_x
                                   (int (width c) - w - offset_x) offset_y
                                   (int (height c) - h - offset_y) of
                              Inl e \<Rightarrow> Inl e
                            | Inr mask_clip \<Rightarrow>
                                (if invert then std_Invert mask_clip else Inr mask_clip))))
                of Inl e \<Rightarrow> Inl e
                 | Inr mask_clip \<Rightarrow>
                     (if num_frames c = 1 then Inr mask_clip
                      else std_Loop mask_clip (num_frames c)))))"

section \<open>Stream operators of the Python binding\<close>

text \<open>
  \<open>clip[i]\<close>, \<open>clip[a:b]\<close>, \<open>clip + clip\<close> and \<open>clip * n\<close>. An index counts from the end
  when negative and raises \<open>IndexError\<close> out of range; a slice follows Python's
  \<open>slice.indices\<close> and is a \<open>std.Trim\<close>, which rejects an empty result; \<open>+\<close> is
  \<open>std.Splice\<close>, which rejects streams of different format or dimensions; \<open>*\<close> raises
  \<open>ValueError\<close> for a count below one and is \<open>std.Loop\<close> otherwise.
\<close>

definition clip_getitem :: "clip \<Rightarrow> int \<Rightarrow> error + clip" where
  "clip_getitem c i =
     (let n = (if i < 0 then num_frames c + i else i)
      in if n < 0 \<or> n \<ge> num_frames c then Inl (IndexError ''List index out of bounds'')
         else Inr (c\<lparr>frames := [frames c ! nat n]\<rparr>))"

definition slice_index :: "int \<Rightarrow> int option \<Rightarrow> int \<Rightarrow> int" where
  "slice_index n v dflt =
     (case v of None \<Rightarrow> dflt | Some i \<Rightarrow> if i < 0 then max 0 (i + n) else min i n)"

definition clip_slice :: "clip \<Rightarrow> int option \<Rightarrow> int option \<Rightarrow> error + clip" where
  "clip_slice c start stop =
     (let lo = slice_index (num_frames c) start 0;
          hi = slice_index (num_frames c) stop (num_frames c)
      in if hi \<le> lo then Inl (VSError ''Trim: invalid last frame specified'')
         else Inr (c\<lparr>frames := take (nat (hi - lo)) (drop (nat lo) (frames c))\<rparr>))"

definition splice :: "clip \<Rightarrow> clip \<Rightarrow> error + clip" where
  "splice a b =
     (if format a \<noteq> format b \<or> width a \<noteq> width b \<or> height a \<noteq> height b
      then Inl (VSError ''Splice: clip property mismatch'')
      else Inr (a\<lparr>frames := frames a @ frames b\<rparr>))"


section \<open>External collaborators\<close>

text \<open>
  The blur filters, the bit-depth conversion and the per-frame arithmetic of the masked
  merge are opaque: they are fields of a record that every function using them takes.
  \<open>depth x ref full\<close> is \<open>depth(x, ref)\<close>, with \<open>range_in\<close> and \<open>range_out\<close> set to full range
  when \<open>full\<close> holds. The type \<open>'f\<close> is the type of float arguments.
\<close>

record 'f externals =
  box_blur :: "clip \<Rightarrow> int \<Rightarrow> int \<Rightarrow> clip"
  gauss_blur :: "clip \<Rightarrow> 'f \<Rightarrow> clip"
  depth :: "clip \<Rightarrow> clip \<Rightarrow> bool \<Rightarrow> clip"
  masked_merge :: "frame \<Rightarrow> frame \<Rightarrow> frame \<Rightarrow> frame"

text \<open>
  A frame requested beyond the end of a stream is its last frame.
\<close>

definition frame_at :: "clip \<Rightarrow> nat \<Rightarrow> frame" where
  "frame_at c n = frames c ! min n (length (frames c) - 1)"

definition shape :: "frame \<Rightarrow> nat list list" where
  "shape fr = map (map length) fr"

definition same_geometry :: "clip \<Rightarrow> clip \<Rightarrow> bool" where
  "same_geometry a b =
     (width a = width b \<and> height a = height b \<and> frames b \<noteq> []
      \<and> list_all (\<lambda>n. shape (frames a ! n) = shape (frame_at b n)) [0..<length (frames a)])"

text \<open>
  \<open>clipa.std.MaskedMerge(clipb, mask)\<close>: the streams must agree in format and
  dimensions, the mask in dimensions; the result has the format and length of \<open>clipa\<close>.
\<close>

definition std_MaskedMerge :: "'f externals \<Rightarrow> clip \<Rightarrow> clip \<Rightarrow> clip \<Rightarrow> error + clip" where
  "std_MaskedMerge ext clipa clipb mask_clip =
     (if format clipa = None \<or> format clipa \<noteq> format clipb \<or> \<not> same_geometry clipa clipb
      then Inl (VSError ''MaskedMerge: both clips must have the same constant format and dimensions'')
      else if format mask_clip = None \<or> width mask_clip \<noteq> width clipa
              \<or> height mask_clip \<noteq> height clipa \<or> frames mask_clip = []
      then Inl (VSError ''MaskedMerge: mask clip must have same dimensions as main clip'')
      else Inr (clipa\<lparr>frames :=
                 map (\<lambda>n. masked_merge ext (frames clipa ! n) (frame_at clipb n)
                            (frame_at mask_clip n)) [0..<length (frames clipa)]\<rparr>))"

text \<open>
  \<open>vsexprtools.norm_expr([a, b], expr)\<close> on two streams of the same geometry; the result
  has the format and length of the first.
\<close>

definition norm_expr2 :: "clip \<Rightarrow> clip \<Rightarrow> expr_token list \<Rightarrow> error + clip" where
  "norm_expr2 a b toks =
     (case format a of
        None \<Rightarrow> Inl (VSError ''Expr: only constant format input supported'')
      | Some f \<Rightarrow>
          if format b = None \<or> \<not> same_geometry a b
          then Inl (VSError ''Expr: all inputs must have the same number of planes and the same dimensions'')
          else if \<not> expr_check 2 0 toks then Inl (VSError ''Expr: failed to compile expression'')
          else Inr (a\<lparr>frames :=
                        map (\<lambda>n. map (\<lambda>p. expr_plane toks (get_peak_value f)
                                            (frames a ! n ! p) (frame_at b n ! p))
                                   [0..<length (frames a ! n)])
                          [0..<length (frames a)]\<rparr>))"

section \<open>Frame ranges\<close>

text \<open>
  A frame range (\<open>FrameRangeN\<close>) is a frame number, a pair of optional bounds, or \<open>None\<close>.
  An argument that takes one range or a list of ranges is a \<open>ranges_arg\<close>; Python's
  \<open>None\<close> there is \<open>Range FrameNone\<close>.
\<close>

datatype frame_range = FrameInt int | FrameTuple "int option" "int option" | FrameNone

datatype ranges_arg = Range frame_range | Ranges "frame_range list"

text \<open>
  \<open>vstools.normalize_ranges\<close>: in a pair an open start is 0 and an open end the last
  frame; \<open>None\<close> as an element of a list is the last frame; a negative bound counts from
  the last frame.
\<close>

definition normalize_range :: "clip \<Rightarrow> frame_range \<Rightarrow> int \<times> int" where
  "normalize_range c r =
     (let last_frame = num_frames c - 1;
          se = (case r of
                  FrameTuple s e \<Rightarrow>
                    ((case s of None \<Rightarrow> 0 | Some s' \<Rightarrow> s'),
                     (case e of None \<Rightarrow> last_frame | Some e' \<Rightarrow> e'))
                | FrameNone \<Rightarrow> (last_frame, last_frame)
                | FrameInt i \<Rightarrow> (i, i))
      in ((if fst se < 0 then last_frame + fst se else fst se),
          (if snd se < 0 then last_frame + snd se else snd se)))"

definition normalize_ranges :: "clip \<Rightarrow> ranges_arg \<Rightarrow> (int \<times> int) list" where
  "normalize_ranges c rs =
     map (normalize_range c) (case rs of Range r \<Rightarrow> [r] | Ranges l \<Rightarrow> l)"

text \<open>
  \<open>vstools.replace_ranges(clip_a, clip_b, ranges)\<close>. With no ranges (\<open>None\<close> or an empty
  list) it returns \<open>clip_a\<close>. Otherwise it goes through the normalised ranges in turn,
  \<open>replace_range\<close> being the body of its loop: the frames \<open>start\<close> to \<open>end\<close> of \<open>clip_b\<close>
  are sliced out and spliced between the frames of the result so far before \<open>start\<close>
  and after \<open>end\<close>.
\<close>

definition replace_range :: "clip \<Rightarrow> clip \<Rightarrow> int \<times> int \<Rightarrow> error + clip" where
  "replace_range out clip_b se =
     (case se of (start_frame, end_frame) \<Rightarrow>
     (case clip_slice clip_b (Some start_frame) (Some (end_frame + 1)) of
        Inl e \<Rightarrow> Inl e
      | Inr tmp \<Rightarrow>
     (case (if start_frame \<noteq> 0
            then (case clip_slice out None (Some start_frame) of
                    Inl e \<Rightarrow> Inl e
                  | Inr pre \<Rightarrow> splice pre tmp)
            else Inr tmp) of
        Inl e \<Rightarrow> Inl e
      | Inr tmp' \<Rightarrow>
          (if end_frame < num_frames out - 1
           then (case clip_slice out (Some (end_frame + 1)) None of
                   Inl e \<Rightarrow> Inl e
                 | Inr post \<Rightarrow> splice tmp' post)
           else Inr tmp'))))"

fun replace_ranges_loop :: "clip \<Rightarrow> clip \<Rightarrow> (int \<times> int) list \<Rightarrow> error + clip" where
  "replace_ranges_loop out clip_b [] = Inr out"
| "replace_ranges_loop out clip_b (se # rest) =
     (case replace_range out clip_b se of
        Inl e \<Rightarrow> Inl e
      | Inr out' \<Rightarrow> replace_ranges_loop out' clip_b rest)"

definition replace_ranges :: "clip \<Rightarrow> clip \<Rightarrow> ranges_arg \<Rightarrow> error + clip" where
  "replace_ranges clip_a clip_b rs =
     (if rs = Range FrameNone \<or> rs = Ranges [] then Inr clip_a
      else replace_ranges_loop clip_a clip_b (normalize_ranges clip_b rs))"


text \<open>
  The frames a range stands for in a stream. \<open>replace_ranges\<close> slices both streams at the
  normalised bounds of the range, with the slice semantics of Python, so a range selects
  the frames from the first of \<open>range_bounds\<close> up to but not including the second, and
  \<open>None\<close> selects no frame. \<open>range_ok\<close> holds when none of the slices \<open>replace_ranges\<close>
  takes for the range is empty. Two ranges are disjoint in a stream when no frame of it
  is selected by both.
\<close>

definition range_bounds :: "clip \<Rightarrow> frame_range \<Rightarrow> int \<times> int" where
  "range_bounds c r =
     (slice_index (num_frames c) (Some (fst (normalize_range c r))) 0,
      slice_index (num_frames c) (Some (snd (normalize_range c r) + 1)) 0)"

definition range_selects :: "clip \<Rightarrow> frame_range \<Rightarrow> nat \<Rightarrow> bool" where
  "range_selects c r n =
     (r \<noteq> FrameNone \<and> fst (range_bounds c r) \<le> int n \<and> int n < snd (range_bounds c r))"

definition range_ok :: "clip \<Rightarrow> frame_range \<Rightarrow> bool" where
  "range_ok c r =
     (r = FrameNone
      \<or> (fst (range_bounds c r) < snd (range_bounds c r)
         \<and> (fst (normalize_range c r) \<noteq> 0 \<longrightarrow> 0 < fst (range_bounds c r))
         \<and> (snd (normalize_range c r) < num_frames c - 1
              \<longrightarrow> snd (range_bounds c r) < num_frames c)))"

definition disjoint_ranges :: "clip \<Rightarrow> frame_range \<Rightarrow> frame_range \<Rightarrow> bool" where
  "disjoint_ranges c r1 r2 =
     list_all (\<lambda>n. \<not> (range_selects c r1 n \<and> range_selects c r2 n)) [0..<length (frames c)]"

section \<open>Square masks over frame ranges\<close>

datatype 'f sigma = SigmaInt int | SigmaFloat 'f

text \<open>
  \<open>replace_squaremask\<close>; \<open>blur_sigma = None\<close> and \<open>ranges = None\<close> are the defaults of the
  source.
\<close>

definition replace_squaremask ::
  "'f externals \<Rightarrow> bool \<Rightarrow> clip \<Rightarrow> clip \<Rightarrow> int \<times> int \<times> int \<times> int \<Rightarrow> ranges_arg option
     \<Rightarrow> 'f sigma option \<Rightarrow> bool \<Rightarrow> bool \<Rightarrow> error + clip" where
  "replace_squaremask ext aka_expr_available clipa clipb mask_params ranges0 blur_sigma
       invert show_mask =
     (case check_variable clipa of
        Inl e \<Rightarrow> Inl e
      | Inr fa \<Rightarrow>
     (case check_variable clipb of
        Inl e \<Rightarrow> Inl e
      | Inr fb \<Rightarrow>
     (case clip_getitem clipb 0 of
        Inl e \<Rightarrow> Inl e
      | Inr clipb0 \<Rightarrow>
     (case (case mask_params of (w, h, offset_x, offset_y) \<Rightarrow>
              squaremask aka_expr_available clipb0 w h offset_x offset_y invert) of
        Inl e \<Rightarrow> Inl e
      | Inr mask_clip \<Rightarrow>
          (let ranges = (case ranges0 of None \<Rightarrow> Ranges [FrameTuple None None] | Some r \<Rightarrow> r);
               blurred = (case blur_sigma of
                            Some (SigmaInt k) \<Rightarrow> box_blur ext mask_clip k 1
                          | Some (SigmaFloat s) \<Rightarrow> gauss_blur ext mask_clip s
                          | None \<Rightarrow> mask_clip)
           in (case std_Loop blurred (num_frames clipa) of
                 Inl e \<Rightarrow> Inl e
               | Inr looped \<Rightarrow>
                   if show_mask then Inr looped
                   else (case std_MaskedMerge ext clipa clipb looped of
                           Inl e \<Rightarrow> Inl e
                         | Inr merge \<Rightarrow> replace_ranges clipa merge ranges)))))))"


section \<open>Mask objects\<close>

record bounding_box =
  bb_pos :: "int \<times> int"
  bb_size :: "int \<times> int"
  bb_invert :: bool

text \<open>\<open>BoundingBox.get_mask\<close>.\<close>

definition bounding_box_get_mask :: "bool \<Rightarrow> bounding_box \<Rightarrow> clip \<Rightarrow> error + clip" where
  "bounding_box_get_mask aka_expr_available bb ref =
     squaremask aka_expr_available ref (fst (bb_size bb)) (snd (bb_size bb))
       (fst (bb_pos bb)) (snd (bb_pos bb)) (bb_invert bb)"

record deferred_mask =
  ranges :: "frame_range list"
  bound :: "bounding_box option"
  refframes :: "int option list"
  blur :: bool

datatype refframes_arg = RefNone | RefInt int | RefList "int option list"

text \<open>
  \<open>vstools.normalize_seq(val, length)\<close>: the sequence padded with its last element, or
  cut, to \<open>length\<close> elements.
\<close>

definition normalize_seq :: "'a list \<Rightarrow> nat \<Rightarrow> 'a list" where
  "normalize_seq val n = take n (val @ replicate (n - length val) (last val))"

text \<open>\<open>DeferredMask.__init__\<close>.\<close>

definition deferred_mask_init ::
  "ranges_arg \<Rightarrow> bounding_box option \<Rightarrow> bool \<Rightarrow> refframes_arg \<Rightarrow> error + deferred_mask" where
  "deferred_mask_init ranges0 bound0 blur0 refframes0 =
     (let ranges1 = (case ranges0 of
                       Ranges l \<Rightarrow> l
                     | Range FrameNone \<Rightarrow> [FrameTuple (Some 0) None]
                     | Range r \<Rightarrow> [r]);
          refframes1 = (case refframes0 of
                          RefNone \<Rightarrow> []
                        | RefList l \<Rightarrow> l
                        | RefInt k \<Rightarrow> normalize_seq [Some k] (length ranges1))
      in if length refframes1 > 0 \<and> length refframes1 \<noteq> length ranges1
         then Inl (FramesLengthError ''Received reference frame and range list size mismatch!'')
         else Inr \<lparr>ranges = ranges1, bound = bound0, refframes = refframes1, blur = blur0\<rparr>)"

text \<open>
  The loop of \<open>DeferredMask.get_mask\<close> over \<open>zip(self.ranges, self.refframes)\<close>, with the
  accumulator \<open>hm\<close>; \<open>mask_fn\<close> is the \<open>_mask\<close> of the subclass.
\<close>

fun accumulate ::
  "'f externals \<Rightarrow> (clip \<Rightarrow> clip \<Rightarrow> clip) \<Rightarrow> clip \<Rightarrow> clip \<Rightarrow> clip
     \<Rightarrow> (frame_range \<times> int option) list \<Rightarrow> error + clip" where
  "accumulate ext mask_fn c ref hm [] = Inr hm"
| "accumulate ext mask_fn c ref hm ((frange, rf0) # rest) =
     (let rf = (case rf0 of
                  None \<Rightarrow> num_frames ref - 1
                | Some r \<Rightarrow> if r < 0 then num_frames ref - 1 + r else r)
      in (case clip_getitem c rf of
            Inl e \<Rightarrow> Inl e
          | Inr c_rf \<Rightarrow>
         (case clip_getitem ref rf of
            Inl e \<Rightarrow> Inl e
          | Inr ref_rf \<Rightarrow>
         (case std_Loop (depth ext (mask_fn c_rf ref_rf) c True) (num_frames hm) of
            Inl e \<Rightarrow> Inl e
          | Inr looped \<Rightarrow>
         (case norm_expr2 hm looped [Clip_x, Clip_y, Op_max] of
            Inl e \<Rightarrow> Inl e
          | Inr combined \<Rightarrow>
         (case replace_ranges hm combined (Range frange) of
            Inl e \<Rightarrow> Inl e
          | Inr hm' \<Rightarrow> accumulate ext mask_fn c ref hm' rest))))))"

text \<open>\<open>DeferredMask.get_mask\<close>.\<close>

definition get_mask ::
  "'f externals \<Rightarrow> bool \<Rightarrow> deferred_mask \<Rightarrow> (clip \<Rightarrow> clip \<Rightarrow> clip) \<Rightarrow> clip \<Rightarrow> clip
     \<Rightarrow> error + clip" where
  "get_mask ext aka_expr_available self mask_fn c ref =
     (case check_variable c of
        Inl e \<Rightarrow> Inl e
      | Inr fc \<Rightarrow>
     (case check_variable ref of
        Inl e \<Rightarrow> Inl e
      | Inr fr \<Rightarrow>
     (case (case bound self of
              None \<Rightarrow> Inr None
            | Some bb \<Rightarrow>
                (case bounding_box_get_mask aka_expr_available bb ref of
                   Inl e \<Rightarrow> Inl e
                 | Inr bm \<Rightarrow> Inr (Some (if blur self then box_blur ext bm 5 5 else bm)))) of
        Inl e \<Rightarrow> Inl e
      | Inr bm \<Rightarrow>
     (case (if length (refframes self) = 0
            then (case std_BlankClip ref None None
                         (fr\<lparr>color_family := GRAY, subsampling_h := 0, subsampling_w := 0\<rparr>)
                         None None of
                    Inl e \<Rightarrow> Inl e
                  | Inr hm \<Rightarrow>
                      accumulate ext mask_fn c ref hm (zip (ranges self) (refframes self)))
            else Inr (depth ext (mask_fn c ref) c True)) of
        Inl e \<Rightarrow> Inl e
      | Inr hm \<Rightarrow>
          (case bm of
             Some bm_clip \<Rightarrow>
               (case format hm of
                  None \<Rightarrow> Inl VariableFormatError
                | Some fh \<Rightarrow>
                    norm_expr2 hm bm_clip
                      [Clip_y, Clip_x, Number 0, Op_max, Number (get_peak_value fh), Op_min,
                       Number 0, Op_ternary])
           | None \<Rightarrow> std_Limiter hm)))))"

text \<open>
  Two parts of the body of the loop of \<open>get_mask\<close>: \<open>range_mask\<close> is the mask of the
  strategy at the resolved reference frame, converted and looped to a given length;
  \<open>combine_in_range\<close> is the accumulator with the maximum of its samples and those of the
  looped mask on the frames the range selects.
\<close>

definition range_mask ::
  "'f externals \<Rightarrow> (clip \<Rightarrow> clip \<Rightarrow> clip) \<Rightarrow> clip \<Rightarrow> clip \<Rightarrow> int option \<Rightarrow> int \<Rightarrow> error + clip" where
  "range_mask ext mask_fn c ref rf0 count =
     (let rf = (case rf0 of
                  None \<Rightarrow> num_frames ref - 1
                | Some r \<Rightarrow> if r < 0 then num_frames ref - 1 + r else r)
      in (case clip_getitem c rf of
            Inl e \<Rightarrow> Inl e
          | Inr c_rf \<Rightarrow>
         (case clip_getitem ref rf of
            Inl e \<Rightarrow> Inl e
          | Inr ref_rf \<Rightarrow> std_Loop (depth ext (mask_fn c_rf ref_rf) c True) count)))"

definition combine_in_range :: "int \<Rightarrow> clip \<Rightarrow> frame_range \<Rightarrow> clip \<Rightarrow> clip" where
  "combine_in_range peak hm r looped =
     hm\<lparr>frames :=
          map (\<lambda>n. if range_selects hm r n
                   then map (\<lambda>p. expr_plane [Clip_x, Clip_y, Op_max] peak
                                    (frames hm ! n ! p) (frame_at looped n ! p))
                          [0..<length (frames hm ! n)]
                   else frames hm ! n)
            [0..<length (frames hm)]\<rparr>"

section \<open>Resolving a mask source\<close>

text \<open>
  A mask source (\<open>GenericMaskT\<close>) is the name of a detector, a detector type, a detector,
  a mask object, a stream, or a function of the target and the reference stream. The
  detectors (\<open>'e\<close>), their types (\<open>'t\<close>) and the mask objects (\<open>'g\<close>) are opaque, with
  their methods in a record. The keyword arguments passed on to the detector are left
  out.
\<close>

datatype ('e, 'g, 't) generic_mask =
    MaskStr string
  | MaskType 't
  | MaskEdgeDetect 'e
  | MaskGeneral 'g
  | MaskClip clip
  | MaskFunc "clip \<Rightarrow> clip \<Rightarrow> clip"

record ('e, 'g, 't) detectors =
  ensure_obj :: "string \<Rightarrow> error + 'e"
  instantiate :: "'t \<Rightarrow> 'e"
  is_ridge_detect :: "'e \<Rightarrow> bool"
  ridgemask :: "'e \<Rightarrow> clip \<Rightarrow> clip"
  edgemask :: "'e \<Rightarrow> clip \<Rightarrow> clip"
  general_get_mask :: "'g \<Rightarrow> clip \<Rightarrow> clip option \<Rightarrow> error + clip"
  depth_to :: "clip \<Rightarrow> clip \<Rightarrow> clip"

text \<open>
  \<open>normalize_mask\<close>: the source goes through the \<open>if\<close> statements in order, each
  rebinding \<open>mask\<close>; the last one is the one for a callable.
\<close>

definition normalize_mask ::
  "('e, 'g, 't) detectors \<Rightarrow> ('e, 'g, 't) generic_mask \<Rightarrow> clip \<Rightarrow> clip option \<Rightarrow> bool
     \<Rightarrow> error + clip" where
  "normalize_mask det mask0 c ref ridge =
     (case (case mask0 of
              MaskStr name \<Rightarrow>
                (case ensure_obj det name of Inl e \<Rightarrow> Inl e | Inr d \<Rightarrow> Inr (MaskEdgeDetect d))
            | m \<Rightarrow> Inr m) of
        Inl e \<Rightarrow> Inl e
      | Inr mask1 \<Rightarrow>
     (let mask2 = (case mask1 of MaskType t \<Rightarrow> MaskEdgeDetect (instantiate det t) | m \<Rightarrow> m);
          mask3 = (case mask2 of
                     MaskEdgeDetect d \<Rightarrow>
                       if is_ridge_detect det d \<and> ridge then MaskClip (ridgemask det d c)
                       else mask2
                   | m \<Rightarrow> m);
          mask4 = (case mask3 of MaskEdgeDetect d \<Rightarrow> MaskClip (edgemask det d c) | m \<Rightarrow> m)
      in (case (case mask4 of
                  MaskGeneral g \<Rightarrow>
                    (case general_get_mask det g c ref of
                       Inl e \<Rightarrow> Inl e
                     | Inr r \<Rightarrow> Inr (MaskClip r))
                | m \<Rightarrow> Inr m) of
            Inl e \<Rightarrow> Inl e
          | Inr mask5 \<Rightarrow>
         (case (case mask5 of
                  MaskFunc fn \<Rightarrow>
                    (case ref of
                       None \<Rightarrow>
                         Inl (CustomValueError
                                ''This mask function requires a ref to be specified!'')
                     | Some r \<Rightarrow> Inr (MaskClip (fn c r)))
                | m \<Rightarrow> Inr m) of
            Inl e \<Rightarrow> Inl e
          | Inr mask6 \<Rightarrow>
              (case mask6 of
                 MaskClip m \<Rightarrow> Inr (depth_to det m c)
               | _ \<Rightarrow> Inl (ValueError ''depth: not a stream''))))))"

section \<open>Example streams\<close>

definition gray8 :: video_format where
  "gray8 = \<lparr>color_family = GRAY, sample_type = INTEGER, bits_per_sample = 8,
             subsampling_w = 0, subsampling_h = 0\<rparr>"

definition example_clip :: clip where
  "example_clip = \<lparr>format = Some gray8, width = 4, height = 3,
     frames = [[[[10, 20, 30, 40], [50, 60, 70, 80], [90, 100, 110, 120]]],
               [[[11, 21, 31, 41], [51, 61, 71, 81], [91, 101, 111, 121]]],
               [[[12, 22, 32, 42], [52, 62, 72, 82], [92, 102, 112, 122]]]]\<rparr>"

text \<open>
  Collaborators for the examples: blurs and conversions that return their input, a
  merge that returns the frame of the second stream, a strategy that returns a stream
  of peak samples.
\<close>

definition ext0 :: "unit externals" where
  "ext0 = \<lparr>box_blur = (\<lambda>c r p. c), gauss_blur = (\<lambda>c s. c), depth = (\<lambda>m c full. m),
            masked_merge = (\<lambda>a b m. b)\<rparr>"

definition peak_fn :: "clip \<Rightarrow> clip \<Rightarrow> clip" where
  "peak_fn c r = r\<lparr>frames := map (map (map (map (\<lambda>v. 255)))) (frames r)\<rparr>"

definition det0 :: "(unit, unit, unit) detectors" where
  "det0 = \<lparr>ensure_obj = (\<lambda>s. Inr ()), instantiate = (\<lambda>t. ()), is_ridge_detect = (\<lambda>d. False),
            ridgemask = (\<lambda>d c. c), edgemask = (\<lambda>d c. c),
            general_get_mask = (\<lambda>g c r. Inr c), depth_to = (\<lambda>m c. m)\<rparr>"

definition example_insert :: clip where
  "example_insert =
     example_clip\<lparr>frames := map (map (map (map (\<lambda>v. v + 1)))) (frames example_clip)\<rparr>"

definition zero_mask :: clip where
  "zero_mask = \<lparr>format = Some gray8, width = 4, height = 3,
                 frames = replicate 3 [replicate 3 (replicate 4 0)]\<rparr>"

definition peak_mask :: clip where
  "peak_mask = \<lparr>format = Some gray8, width = 4, height = 3,
                 frames = replicate 3 [replicate 3 (replicate 4 255)]\<rparr>"

text \<open>
  A second set of collaborators, whose results depend on all their arguments: a merge
  that takes the sample of the second frame where the first plane of the mask is
  positive and the sample of the first frame elsewhere, a strategy that returns the
  reference frame, and a source stream of other samples than \<open>example_clip\<close>.
  \<open>example_merged\<close> is the first frame of \<open>example_clip\<close> with the samples of the first frame
  of \<open>example_source\<close> on the rectangle of width 2 and height 1 at offset (1, 1);
  \<open>example_accumulated\<close> is \<open>zero_mask\<close> with the second frame of \<open>example_source\<close> as its
  first frame and the third as its third.
\<close>

definition hard_merge :: "frame \<Rightarrow> frame \<Rightarrow> frame \<Rightarrow> frame" where
  "hard_merge a b m =
     map (\<lambda>p. map (\<lambda>y. map (\<lambda>x. if m ! 0 ! y ! x > 0 then b ! p ! y ! x else a ! p ! y ! x)
                         [0..<length (a ! p ! y)])
                [0..<length (a ! p)])
       [0..<length a]"

definition ext1 :: "unit externals" where
  "ext1 = \<lparr>box_blur = (\<lambda>c r p. c), gauss_blur = (\<lambda>c s. c), depth = (\<lambda>m c full. m),
            masked_merge = hard_merge\<rparr>"

definition example_source :: clip where
  "example_source =
     example_clip\<lparr>frames := map (map (map (map (\<lambda>v. v + 100)))) (frames example_clip)\<rparr>"

definition ref_fn :: "clip \<Rightarrow> clip \<Rightarrow> clip" where
  "ref_fn c r = r"


definition example_accumulated :: clip where
  "example_accumulated =
     zero_mask\<lparr>frames := [frames example_source ! 1, frames zero_mask ! 1,
                           frames example_source ! 2]\<rparr>"

section \<open>Properties of the primitives and of squaremask\<close>

lemma expr_plane_nth:
  "y < length pl \<Longrightarrow> x < length (pl ! y) \<Longrightarrow>
   expr_plane toks peak pl pl2 ! y ! x =
     expr_eval \<lparr>env_X = int x, env_Y = int y, env_x = pl ! y ! x, env_y = pl2 ! y ! x, env_range_max = peak\<rparr> toks"
  by (simp add: expr_plane_def)

lemma region_expr_eval:
  "expr_eval e (get_region_expr c l r t b (ReplaceStr (if iv then [Range_max, Clip_x] else [Clip_x, Range_max])) False) =
    (if env_X e < l \<or> env_X e > int (width c) - (r + 1) \<or> env_Y e < t \<or> env_Y e > int (height c) - (b + 1)
     then (if iv then env_range_max e else env_x e) else (if iv then env_x e else env_range_max e))"
  by (simp add: get_region_expr_def expr_eval_def expr_run_def)

lemma region_expr_check:
  "expr_check (Suc 0) 0 (get_region_expr c l r t b (ReplaceStr [Range_max, Clip_x]) False)"
  "expr_check (Suc 0) 0 (get_region_expr c l r t b (ReplaceStr [Clip_x, Range_max]) False)"
  by (simp_all add: get_region_expr_def)

text \<open>
  An expression that passes the check leaves exactly one value on the stack, so
  \<open>expr_eval\<close> never reads an empty stack.
\<close>

lemma expr_step_length:
  assumes "expr_depth nclips (length st) t = Some d'"
  shows "length (expr_step e st t) = d'"
proof (cases t)
  case Op_ternary
  with assms obtain b a c rest where "st = b # a # c # rest"
    by (cases st; cases "tl st"; cases "tl (tl st)") (auto split: if_splits)
  with assms Op_ternary show ?thesis by (auto split: if_splits)
next
  case Op_lt
  with assms obtain b a rest where "st = b # a # rest"
    by (cases st; cases "tl st") (auto split: if_splits)
  with assms Op_lt show ?thesis by (auto split: if_splits)
next
  case Op_gt
  with assms obtain b a rest where "st = b # a # rest"
    by (cases st; cases "tl st") (auto split: if_splits)
  with assms Op_gt show ?thesis by (auto split: if_splits)
next
  case Op_or
  with assms obtain b a rest where "st = b # a # rest"
    by (cases st; cases "tl st") (auto split: if_splits)
  with assms Op_or show ?thesis by (auto split: if_splits)
next
  case Op_max
  with assms obtain b a rest where "st = b # a # rest"
    by (cases st; cases "tl st") (auto split: if_splits)
  with assms Op_max show ?thesis by (auto split: if_splits)
next
  case Op_min
  with assms obtain b a rest where "st = b # a # rest"
    by (cases st; cases "tl st") (auto split: if_splits)
  with assms Op_min show ?thesis by (auto split: if_splits)
qed (use assms in \<open>auto split: if_splits\<close>)

lemma expr_check_run:
  "expr_check nclips (length st) toks \<Longrightarrow> length (foldl (expr_step e) st toks) = 1"
proof (induction toks arbitrary: st)
  case Nil
  then show ?case by simp
next
  case (Cons t ts)
  from Cons.prems obtain d' where d: "expr_depth nclips (length st) t = Some d'"
    and rest: "expr_check nclips d' ts"
    by (auto split: option.splits)
  from expr_step_length [OF d] have "length (expr_step e st t) = d'" .
  with rest Cons.IH [of "expr_step e st t"] show ?case by simp
qed

lemma expr_check_eval:
  "expr_check nclips 0 toks \<Longrightarrow> expr_run e toks = [expr_eval e toks]"
proof -
  assume "expr_check nclips 0 toks"
  then have "length (expr_run e toks) = 1"
    using expr_check_run [of nclips "[]" toks e] by (simp add: expr_run_def)
  then show ?thesis
    by (cases "expr_run e toks") (simp_all add: expr_eval_def)
qed

lemma check_variable_Inr:
  "check_variable c = Inr f \<longleftrightarrow> format c = Some f \<and> 0 < width c \<and> 0 < height c"
  by (auto simp: check_variable_def split: option.splits)

lemma get_peak_value_gray [simp]:
  "get_peak_value (f\<lparr>color_family := cf, subsampling_w := sw, subsampling_h := sh\<rparr>) = get_peak_value f"
  by (simp add: get_peak_value_def split: sample_type.splits)

lemma std_Loop_Inr:
  "0 \<le> k \<Longrightarrow> \<exists>r. std_Loop m k = Inr r \<and> format r = format m \<and> width r = width m \<and> height r = height m
      \<and> set (frames r) \<subseteq> set (frames m) \<and> (0 < k \<longrightarrow> length (frames r) = nat k * length (frames m))"
  by (auto simp: std_Loop_def length_concat sum_list_replicate dest: in_set_takeD)

lemma squaremask_fast:
  assumes cv: "check_variable c = Inr f"
    and bx: "ox + w \<le> int (width c)" and by': "oy + h \<le> int (height c)"
  shows "squaremask True c w h ox oy iv =
     (let M = \<lparr>format = Some (f\<lparr>color_family := GRAY, subsampling_w := 0, subsampling_h := 0\<rparr>),
               width = width c, height = height c,
               frames = [[expr_plane (get_region_expr c ox (int (width c) - w - ox) oy (int (height c) - h - oy)
                    (ReplaceStr (if iv then [Range_max, Clip_x] else [Clip_x, Range_max])) False)
                   (get_peak_value f)
                   (replicate (height c) (replicate (width c) 0)) (replicate (height c) (replicate (width c) 0))]]\<rparr>
      in if num_frames c = 1 then Inr M else std_Loop M (num_frames c))"
proof -
  from cv have fc: "format c = Some f" and wpos: "0 < width c" and hpos: "0 < height c"
    by (simp_all add: check_variable_Inr)
  have bc: "std_BlankClip c None None (f\<lparr>color_family := GRAY, subsampling_w := 0, subsampling_h := 0\<rparr>) (Some 1) (Some 0)
     = Inr \<lparr>format = Some (f\<lparr>color_family := GRAY, subsampling_w := 0, subsampling_h := 0\<rparr>),
               width = width c, height = height c,
               frames = [[replicate (height c) (replicate (width c) 0)]]\<rparr>"
    using wpos hpos by (simp add: std_BlankClip_def blank_frame_def num_planes_def plane_width_def plane_height_def)
  show ?thesis
    using bx by' 
    by (simp add: squaremask_def cv bc norm_expr_def region_expr_check Let_def)
qed

lemma pad_plane_nth:
  assumes "y < t + length pl + b" and "x < new_w"
    and "\<forall>row \<in> set pl. l + length row + r = new_w"
  shows "pad_plane new_w l r t b col pl ! y ! x =
     (if t \<le> y \<and> y < t + length pl \<and> l \<le> x \<and> x < new_w - r then pl ! (y - t) ! (x - l) else col)"
proof -
  consider (top) "y < t" | (mid) "t \<le> y" "y < t + length pl" | (bot) "t + length pl \<le> y"
    by linarith
  then show ?thesis
  proof cases
    case top
    then show ?thesis using assms by (simp add: pad_plane_def nth_append)
  next
    case mid
    then have m: "pl ! (y - t) \<in> set pl" by simp
    with assms(3) have len: "l + length (pl ! (y - t)) + r = new_w" by blast
    show ?thesis using mid assms(2) len 
      by (auto simp add: pad_plane_def nth_append)
  next
    case bot
    then show ?thesis using assms by (auto simp add: pad_plane_def nth_append)
  qed
qed


lemma squaremask_fallback:
  assumes cv: "check_variable c = Inr f"
    and bx: "ox + w \<le> int (width c)" and by': "oy + h \<le> int (height c)"
    and pos: "0 < w" "0 < h" "0 \<le> ox" "0 \<le> oy"
  shows "squaremask False c w h ox oy iv =
     (let M = \<lparr>format = Some (f\<lparr>color_family := GRAY, subsampling_w := 0, subsampling_h := 0\<rparr>),
               width = width c, height = height c,
               frames = [[map (map (\<lambda>v. if iv then get_peak_value f - v else v))
                   (pad_plane (width c) (nat ox) (nat (int (width c) - w - ox)) (nat oy)
                      (nat (int (height c) - h - oy)) 0
                      (replicate (nat h) (replicate (nat w) (get_peak_value f))))]]\<rparr>
      in if num_frames c = 1 then Inr M else std_Loop M (num_frames c))"
proof -
  let ?mf = "f\<lparr>color_family := GRAY, subsampling_w := 0, subsampling_h := 0\<rparr>"
  let ?base = "\<lparr>format = Some ?mf, width = nat w, height = nat h,
               frames = [[replicate (nat h) (replicate (nat w) (get_peak_value f))]]\<rparr>"
  have bc: "std_BlankClip c (Some w) (Some h) ?mf (Some 1) (Some (get_peak_value f)) = Inr ?base"
    using pos by (simp add: std_BlankClip_def blank_frame_def num_planes_def plane_width_def plane_height_def)
  have wd: "nat w + nat ox + nat (int (width c) - w - ox) = width c"
    and hd: "nat h + nat oy + nat (int (height c) - h - oy) = height c"
    using pos bx by' by linarith+
  have ab: "std_AddBorders ?base ox (int (width c) - w - ox) oy (int (height c) - h - oy) =
     Inr \<lparr>format = Some ?mf, width = width c, height = height c,
          frames = [[pad_plane (width c) (nat ox) (nat (int (width c) - w - ox)) (nat oy)
                      (nat (int (height c) - h - oy)) 0
                      (replicate (nat h) (replicate (nat w) (get_peak_value f)))]]\<rparr>"
    using pos bx by' wd hd
    by (simp add: std_AddBorders_def check_variable_def aligned_def black_def plane_width_def
        plane_height_def shift_w_def shift_h_def)
  show ?thesis
    using bx by'
    by (cases iv) (simp_all add: squaremask_def cv bc ab std_Invert_def Let_def)
qed

lemma squaremask_fallback_Inr:
  assumes "squaremask False c w h ox oy iv = Inr m"
  shows "0 < w \<and> 0 < h \<and> 0 \<le> ox \<and> 0 \<le> oy"
proof -
  from assms obtain f where cv: "check_variable c = Inr f"
    by (auto simp: squaremask_def split: sum.splits)
  let ?mf = "f\<lparr>color_family := GRAY, subsampling_w := 0, subsampling_h := 0\<rparr>"
  from assms cv obtain base where
    bc: "std_BlankClip c (Some w) (Some h) ?mf (Some 1) (Some (get_peak_value f)) = Inr base"
    by (auto simp: squaremask_def Let_def split: sum.splits if_splits)
  from assms cv bc obtain padded where
    ab: "std_AddBorders base ox (int (width c) - w - ox) oy (int (height c) - h - oy) = Inr padded"
    by (auto simp: squaremask_def Let_def split: sum.splits if_splits)
  from bc have "0 < w \<and> 0 < h"
    by (auto simp: std_BlankClip_def Let_def split: if_splits)
  moreover from ab have "0 \<le> ox \<and> 0 \<le> oy"
    by (auto simp: std_AddBorders_def split: sum.splits if_splits)
  ultimately show ?thesis by simp
qed

lemma squaremask_looped:
  assumes "r = (let M = \<lparr>format = F, width = W, height = H, frames = [fr]\<rparr>
                in if num_frames c = 1 then Inr M else std_Loop M (num_frames c))"
  shows "\<exists>m. r = Inr m \<and> format m = F \<and> width m = W \<and> height m = H
           \<and> set (frames m) \<subseteq> {fr}
           \<and> (frames c \<noteq> [] \<longrightarrow> length (frames m) = length (frames c))"
proof (cases "num_frames c = 1")
  case True
  then show ?thesis using assms by (simp add: num_frames_def)
next
  case False
  have "0 \<le> num_frames c" by (simp add: num_frames_def)
  from std_Loop_Inr [OF this, of "\<lparr>format = F, width = W, height = H, frames = [fr]\<rparr>"]
  show ?thesis using False assms by (auto simp: num_frames_def)
qed


lemma squaremask_single_frame:
  assumes cv: "check_variable c = Inr f"
    and bx: "ox + w \<le> int (width c)" and by': "oy + h \<le> int (height c)"
    and ok: "aka \<or> (0 < w \<and> 0 < h \<and> 0 \<le> ox \<and> 0 \<le> oy)"
  shows "\<exists>P. squaremask aka c w h ox oy iv =
           (let M = \<lparr>format = Some (f\<lparr>color_family := GRAY, subsampling_w := 0, subsampling_h := 0\<rparr>),
                     width = width c, height = height c, frames = [[P]]\<rparr>
            in if num_frames c = 1 then Inr M else std_Loop M (num_frames c))
         \<and> (\<forall>x < width c. \<forall>y < height c. P ! y ! x =
               (if (ox \<le> int x \<and> int x < ox + w \<and> oy \<le> int y \<and> int y < oy + h) \<noteq> iv
                then get_peak_value f else 0))"
proof (cases aka)
  case True
  have "\<forall>x < width c. \<forall>y < height c.
     expr_plane (get_region_expr c ox (int (width c) - w - ox) oy (int (height c) - h - oy)
                    (ReplaceStr (if iv then [Range_max, Clip_x] else [Clip_x, Range_max])) False)
                   (get_peak_value f)
                   (replicate (height c) (replicate (width c) 0)) (replicate (height c) (replicate (width c) 0)) ! y ! x
     = (if (ox \<le> int x \<and> int x < ox + w \<and> oy \<le> int y \<and> int y < oy + h) \<noteq> iv
                then get_peak_value f else 0)"
    by (auto simp add: expr_plane_nth region_expr_eval)
  moreover from True have "aka = True" by simp
  ultimately show ?thesis using squaremask_fast [OF cv bx by', of iv] by blast
next
  case False
  with ok have pos: "0 < w" "0 < h" "0 \<le> ox" "0 \<le> oy" by simp_all
  let ?P0 = "pad_plane (width c) (nat ox) (nat (int (width c) - w - ox)) (nat oy)
                      (nat (int (height c) - h - oy)) 0
                      (replicate (nat h) (replicate (nat w) (get_peak_value f)))"
  have px: "?P0 ! y ! x = (if ox \<le> int x \<and> int x < ox + w \<and> oy \<le> int y \<and> int y < oy + h
                then get_peak_value f else 0)" and ly: "y < length ?P0" and lx: "x < length (?P0 ! y)"
    if "x < width c" "y < height c" for x y
  proof -
    have a: "y < nat oy + length (replicate (nat h) (replicate (nat w) (get_peak_value f)))
               + nat (int (height c) - h - oy)"
      using that pos by' by simp
    have b: "\<forall>row \<in> set (replicate (nat h) (replicate (nat w) (get_peak_value f))).
               nat ox + length row + nat (int (width c) - w - ox) = width c"
      using pos bx by auto
    show "?P0 ! y ! x = (if ox \<le> int x \<and> int x < ox + w \<and> oy \<le> int y \<and> int y < oy + h
                then get_peak_value f else 0)"
      using pad_plane_nth [OF a that(1) b] that pos bx by' by auto
    show "y < length ?P0" using a by (simp add: pad_plane_def)
    have "length (?P0 ! y) = width c"
      using that pos bx by' by (auto simp add: pad_plane_def nth_append)
    then show "x < length (?P0 ! y)" using that by simp
  qed
  have "\<forall>x < width c. \<forall>y < height c.
     map (map (\<lambda>v. if iv then get_peak_value f - v else v)) ?P0 ! y ! x
     = (if (ox \<le> int x \<and> int x < ox + w \<and> oy \<le> int y \<and> int y < oy + h) \<noteq> iv
                then get_peak_value f else 0)"
    using px ly lx by auto
  moreover from False have "aka = False" by simp
  ultimately show ?thesis using squaremask_fallback [OF cv bx by' pos, of iv] by blast
qed

text \<open>
  C3. For a stream of concrete format and resolution and a rectangle with
  \<open>offset_x + w \<le> width\<close> and \<open>offset_y + h \<le> height\<close>, every pixel \<open>(x, y)\<close> of every
  frame of the mask \<open>squaremask\<close> returns is the peak value of the format when
  \<open>offset_x \<le> x < offset_x + w\<close> and \<open>offset_y \<le> y < offset_y + h\<close>, and 0 otherwise; with
  \<open>invert\<close> the two values are swapped. The mask has one plane, the dimensions of the
  stream and its number of frames. With the expression evaluator the mask is returned
  for every such rectangle; without it, for every such rectangle of positive size at
  non-negative offsets (the blank-frame and padding primitives take no others).
\<close>

theorem squaremask_pixels:
  assumes cv: "check_variable c = Inr f"
    and bx: "ox + w \<le> int (width c)" and by': "oy + h \<le> int (height c)"
  shows "(aka \<or> (0 < w \<and> 0 < h \<and> 0 \<le> ox \<and> 0 \<le> oy)
            \<longrightarrow> (\<exists>m. squaremask aka c w h ox oy iv = Inr m))
       \<and> (\<forall>m. squaremask aka c w h ox oy iv = Inr m \<longrightarrow>
            format m = Some (f\<lparr>color_family := GRAY, subsampling_w := 0, subsampling_h := 0\<rparr>)
          \<and> width m = width c \<and> height m = height c
          \<and> (frames c \<noteq> [] \<longrightarrow> length (frames m) = length (frames c))
          \<and> (\<forall>n < length (frames m). length (frames m ! n) = 1
               \<and> (\<forall>x < width c. \<forall>y < height c. pixel m n 0 x y =
                   (if (ox \<le> int x \<and> int x < ox + w \<and> oy \<le> int y \<and> int y < oy + h) \<noteq> iv
                    then get_peak_value f else 0))))"
proof -
  have main: "\<exists>m. squaremask aka c w h ox oy iv = Inr m
          \<and> format m = Some (f\<lparr>color_family := GRAY, subsampling_w := 0, subsampling_h := 0\<rparr>)
          \<and> width m = width c \<and> height m = height c
          \<and> (frames c \<noteq> [] \<longrightarrow> length (frames m) = length (frames c))
          \<and> (\<forall>n < length (frames m). length (frames m ! n) = 1
               \<and> (\<forall>x < width c. \<forall>y < height c. pixel m n 0 x y =
                   (if (ox \<le> int x \<and> int x < ox + w \<and> oy \<le> int y \<and> int y < oy + h) \<noteq> iv
                    then get_peak_value f else 0)))"
    if ok: "aka \<or> (0 < w \<and> 0 < h \<and> 0 \<le> ox \<and> 0 \<le> oy)"
  proof -
    from squaremask_single_frame [OF cv bx by' ok, of iv] obtain P where
      eq: "squaremask aka c w h ox oy iv =
           (let M = \<lparr>format = Some (f\<lparr>color_family := GRAY, subsampling_w := 0, subsampling_h := 0\<rparr>),
                     width = width c, height = height c, frames = [[P]]\<rparr>
            in if num_frames c = 1 then Inr M else std_Loop M (num_frames c))"
      and P: "\<forall>x < width c. \<forall>y < height c. P ! y ! x =
               (if (ox \<le> int x \<and> int x < ox + w \<and> oy \<le> int y \<and> int y < oy + h) \<noteq> iv
                then get_peak_value f else 0)"
      by blast
    from squaremask_looped [OF eq] obtain m where
      m: "squaremask aka c w h ox oy iv = Inr m"
        "format m = Some (f\<lparr>color_family := GRAY, subsampling_w := 0, subsampling_h := 0\<rparr>)"
        "width m = width c" "height m = height c"
        "set (frames m) \<subseteq> {[P]}"
        "frames c \<noteq> [] \<longrightarrow> length (frames m) = length (frames c)"
      by blast
    have "frames m ! n = [P]" if "n < length (frames m)" for n
      using m(5) that nth_mem by blast
    with m P show ?thesis by (simp add: pixel_def)
  qed
  have ok: "aka \<or> (0 < w \<and> 0 < h \<and> 0 \<le> ox \<and> 0 \<le> oy)"
    if "squaremask aka c w h ox oy iv = Inr m" for m
    using that squaremask_fallback_Inr [of c w h ox oy iv m] by (cases aka) simp_all
  show ?thesis
  proof (rule conjI)
    show "aka \<or> (0 < w \<and> 0 < h \<and> 0 \<le> ox \<and> 0 \<le> oy)
            \<longrightarrow> (\<exists>m. squaremask aka c w h ox oy iv = Inr m)"
      using main by blast
  next
    show "\<forall>m. squaremask aka c w h ox oy iv = Inr m \<longrightarrow>
            format m = Some (f\<lparr>color_family := GRAY, subsampling_w := 0, subsampling_h := 0\<rparr>)
          \<and> width m = width c \<and> height m = height c
          \<and> (frames c \<noteq> [] \<longrightarrow> length (frames m) = length (frames c))
          \<and> (\<forall>n < length (frames m). length (frames m ! n) = 1
               \<and> (\<forall>x < width c. \<forall>y < height c. pixel m n 0 x y =
                   (if (ox \<le> int x \<and> int x < ox + w \<and> oy \<le> int y \<and> int y < oy + h) \<noteq> iv
                    then get_peak_value f else 0)))"
    proof (intro allI impI)
      fix m
      assume m: "squaremask aka c w h ox oy iv = Inr m"
      from main [OF ok [OF m]] obtain m' where m': "squaremask aka c w h ox oy iv = Inr m'"
        and props: "format m' = Some (f\<lparr>color_family := GRAY, subsampling_w := 0, subsampling_h := 0\<rparr>)
          \<and> width m' = width c \<and> height m' = height c
          \<and> (frames c \<noteq> [] \<longrightarrow> length (frames m') = length (frames c))
          \<and> (\<forall>n < length (frames m'). length (frames m' ! n) = 1
               \<and> (\<forall>x < width c. \<forall>y < height c. pixel m' n 0 x y =
                   (if (ox \<le> int x \<and> int x < ox + w \<and> oy \<le> int y \<and> int y < oy + h) \<noteq> iv
                    then get_peak_value f else 0)))"
        by blast
      from m m' have eq: "m' = m" by simp
      from props show "format m = Some (f\<lparr>color_family := GRAY, subsampling_w := 0, subsampling_h := 0\<rparr>)
          \<and> width m = width c \<and> height m = height c
          \<and> (frames c \<noteq> [] \<longrightarrow> length (frames m) = length (frames c))
          \<and> (\<forall>n < length (frames m). length (frames m ! n) = 1
               \<and> (\<forall>x < width c. \<forall>y < height c. pixel m n 0 x y =
                   (if (ox \<le> int x \<and> int x < ox + w \<and> oy \<le> int y \<and> int y < oy + h) \<noteq> iv
                    then get_peak_value f else 0)))"
        unfolding eq .
    qed
  qed
qed

lemma check_variable_example: "check_variable example_clip = Inr gray8"
  by (simp add: check_variable_def example_clip_def)

lemma std_BlankClip_error: "std_BlankClip c wa ha f la col = Inl e \<Longrightarrow> \<exists>s. e = VSError s"
  by (auto simp: std_BlankClip_def Let_def split: if_splits)

lemma std_AddBorders_error: "std_AddBorders c l r t b = Inl e \<Longrightarrow> \<exists>s. e = VSError s"
  by (auto simp: std_AddBorders_def split: sum.splits if_splits)

lemma std_Invert_error: "std_Invert c = Inl e \<Longrightarrow> \<exists>s. e = VSError s"
  by (auto simp: std_Invert_def split: option.splits)

lemma std_Loop_error: "std_Loop c k = Inl e \<Longrightarrow> \<exists>s. e = VSError s"
  by (auto simp: std_Loop_def split: if_splits)

lemma norm_expr_error: "norm_expr c toks = Inl e \<Longrightarrow> \<exists>s. e = VSError s"
  by (auto simp: norm_expr_def split: option.splits if_splits)

theorem squaremask_pixels_witness:
  "(\<exists>m. squaremask False example_clip 2 1 1 1 False = Inr m \<and> length (frames m) = 3
      \<and> pixel m 1 0 1 1 = 255 \<and> pixel m 1 0 2 1 = 255 \<and> pixel m 1 0 3 1 = 0
      \<and> pixel m 1 0 1 0 = 0)
   \<and> (\<exists>m. squaremask True example_clip 2 1 1 1 True = Inr m \<and> length (frames m) = 3
      \<and> pixel m 2 0 1 1 = 0 \<and> pixel m 2 0 2 1 = 0 \<and> pixel m 2 0 3 1 = 255
      \<and> pixel m 2 0 1 0 = 255)"
proof -
  have bx: "1 + 2 \<le> int (width example_clip)" and by': "1 + 1 \<le> int (height example_clip)"
    by (simp_all add: example_clip_def)
  have fr: "frames example_clip \<noteq> []" by (simp add: example_clip_def)
  have wh: "width example_clip = 4" "height example_clip = 3"
    by (simp_all add: example_clip_def)
  have pk: "get_peak_value gray8 = 255" by (simp add: get_peak_value_def gray8_def)
  have fallback: "\<exists>m. squaremask False example_clip 2 1 1 1 False = Inr m
      \<and> length (frames m) = 3
      \<and> pixel m 1 0 1 1 = 255 \<and> pixel m 1 0 2 1 = 255 \<and> pixel m 1 0 3 1 = 0
      \<and> pixel m 1 0 1 0 = 0"
  proof -
    note T = squaremask_pixels [OF check_variable_example bx by', of False False]
    have "\<exists>m. squaremask False example_clip 2 1 1 1 False = Inr m"
      using conjunct1 [OF T] by simp
    then obtain m where m: "squaremask False example_clip 2 1 1 1 False = Inr m" ..
    note R = conjunct2 [OF T, rule_format, OF m]
    from R fr have len: "length (frames m) = 3" by (simp add: example_clip_def)
    then have n: "(1::nat) < length (frames m)" by simp
    from R have px: "\<forall>n<length (frames m). length (frames m ! n) = 1 \<and>
          (\<forall>x<width example_clip. \<forall>y<height example_clip. pixel m n 0 x y =
             (if (1 \<le> int x \<and> int x < 1 + 2 \<and> 1 \<le> int y \<and> int y < 1 + 1) \<noteq> False
              then get_peak_value gray8 else 0))" by blast
    note P = px [rule_format, OF n, THEN conjunct2, rule_format]
    have "pixel m 1 0 1 1 = 255" using P [of 1 1] by (simp add: wh pk)
    moreover have "pixel m 1 0 2 1 = 255" using P [of 2 1] by (simp add: wh pk)
    moreover have "pixel m 1 0 3 1 = 0" using P [of 3 1] by (simp add: wh pk)
    moreover have "pixel m 1 0 1 0 = 0" using P [of 1 0] by (simp add: wh pk)
    ultimately show ?thesis using m len by simp
  qed
  have fast: "\<exists>m. squaremask True example_clip 2 1 1 1 True = Inr m
      \<and> length (frames m) = 3
      \<and> pixel m 2 0 1 1 = 0 \<and> pixel m 2 0 2 1 = 0 \<and> pixel m 2 0 3 1 = 255
      \<and> pixel m 2 0 1 0 = 255"
  proof -
    note T = squaremask_pixels [OF check_variable_example bx by', of True True]
    have "\<exists>m. squaremask True example_clip 2 1 1 1 True = Inr m"
      using conjunct1 [OF T] by simp
    then obtain m where m: "squaremask True example_clip 2 1 1 1 True = Inr m" ..
    note R = conjunct2 [OF T, rule_format, OF m]
    from R fr have len: "length (frames m) = 3" by (simp add: example_clip_def)
    then have n: "(2::nat) < length (frames m)" by simp
    from R have px: "\<forall>n<length (frames m). length (frames m ! n) = 1 \<and>
          (\<forall>x<width example_clip. \<forall>y<height example_clip. pixel m n 0 x y =
             (if (1 \<le> int x \<and> int x < 1 + 2 \<and> 1 \<le> int y \<and> int y < 1 + 1) \<noteq> True
              then get_peak_value gray8 else 0))" by blast
    note P = px [rule_format, OF n, THEN conjunct2, rule_format]
    have "pixel m 2 0 1 1 = 0" using P [of 1 1] by (simp add: wh pk)
    moreover have "pixel m 2 0 2 1 = 0" using P [of 2 1] by (simp add: wh pk)
    moreover have "pixel m 2 0 3 1 = 255" using P [of 3 1] by (simp add: wh pk)
    moreover have "pixel m 2 0 1 0 = 255" using P [of 1 0] by (simp add: wh pk)
    ultimately show ?thesis using m len by simp
  qed
  from fallback fast show ?thesis by (rule conjI)
qed

text \<open>
  C4. For a stream of concrete format and resolution, \<open>squaremask\<close> raises the size error
  exactly when \<open>offset_x + w > width\<close> or \<open>offset_y + h > height\<close>, on either path and
  whatever the frames of the stream are: the check comes before any primitive that
  builds a frame, and no other failure of \<open>squaremask\<close> is a \<open>CustomValueError\<close>.
\<close>

theorem squaremask_size_error:
  assumes cv: "check_variable c = Inr f"
  shows "((squaremask aka c w h ox oy iv = Inl (CustomValueError ''mask exceeds clip size!''))
           = (ox + w > int (width c) \<or> oy + h > int (height c)))
       \<and> ((\<exists>msg. squaremask aka c w h ox oy iv = Inl (CustomValueError msg))
           = (ox + w > int (width c) \<or> oy + h > int (height c)))"
proof (cases "ox + w > int (width c) \<or> oy + h > int (height c)")
  case True
  then have "squaremask aka c w h ox oy iv = Inl (CustomValueError ''mask exceeds clip size!'')"
    by (simp add: squaremask_def cv)
  with True show ?thesis by blast
next
  case False
  have "squaremask aka c w h ox oy iv \<noteq> Inl (CustomValueError msg)" for msg
  proof
    assume "squaremask aka c w h ox oy iv = Inl (CustomValueError msg)"
    with False show False
      by (auto simp: squaremask_def cv Let_def split: sum.splits if_splits
          dest!: std_BlankClip_error std_AddBorders_error std_Invert_error std_Loop_error
            norm_expr_error)
  qed
  with False show ?thesis by blast
qed

theorem squaremask_size_error_witness:
  "squaremask True example_clip 4 1 1 0 False = Inl (CustomValueError ''mask exceeds clip size!'')
   \<and> squaremask False example_clip 2 3 0 1 True = Inl (CustomValueError ''mask exceeds clip size!'')
   \<and> squaremask False example_clip 3 3 1 0 True \<noteq> Inl (CustomValueError ''mask exceeds clip size!'')"
  using squaremask_size_error [OF check_variable_example, of True 4 1 1 0 False]
    squaremask_size_error [OF check_variable_example, of False 2 3 0 1 True]
    squaremask_size_error [OF check_variable_example, of False 3 3 1 0 True]
  by (simp add: example_clip_def)

section \<open>Properties of the mask objects and of the range helpers\<close>

lemma normalize_seq_single: "normalize_seq [v] n = replicate n v"
  by (cases n) (simp_all add: normalize_seq_def replicate_append_same)

text \<open>
  C5. With a list of ranges and a list of reference frames, the construction of a
  \<open>DeferredMask\<close> raises the length-mismatch error exactly when the list of reference
  frames is not empty and its length differs from the length of the list of ranges; it
  raises no other error.
\<close>

theorem deferred_mask_init_length_error:
  "((deferred_mask_init (Ranges rs) bb bl (RefList rf)
       = Inl (FramesLengthError ''Received reference frame and range list size mismatch!''))
      = (rf \<noteq> [] \<and> length rf \<noteq> length rs))
   \<and> ((\<exists>e. deferred_mask_init (Ranges rs) bb bl (RefList rf) = Inl e)
      = (rf \<noteq> [] \<and> length rf \<noteq> length rs))"
  by (simp add: deferred_mask_init_def)

theorem deferred_mask_init_length_error_witness:
  "deferred_mask_init (Ranges [FrameInt 0, FrameInt 1]) None False (RefList [None])
     = Inl (FramesLengthError ''Received reference frame and range list size mismatch!'')
   \<and> deferred_mask_init (Ranges [FrameInt 0, FrameInt 1]) None False (RefList [])
     \<noteq> Inl (FramesLengthError ''Received reference frame and range list size mismatch!'')
   \<and> deferred_mask_init (Ranges [FrameInt 0, FrameInt 1]) None False (RefList [None, Some 3])
     \<noteq> Inl (FramesLengthError ''Received reference frame and range list size mismatch!'')"
  using deferred_mask_init_length_error [of "[FrameInt 0, FrameInt 1]" None False "[None]"]
    deferred_mask_init_length_error [of "[FrameInt 0, FrameInt 1]" None False "[]"]
    deferred_mask_init_length_error [of "[FrameInt 0, FrameInt 1]" None False "[None, Some 3]"]
  by simp

text \<open>
  C9. With a single integer for \<open>refframes\<close> the construction never raises: for a list of
  ranges the reference frames are one copy of the integer per range, and for any
  \<open>ranges\<close> argument the list of reference frames has the length of the list of ranges.
\<close>

theorem deferred_mask_init_scalar:
  "deferred_mask_init (Ranges rs) bb bl (RefInt k)
     = Inr \<lparr>ranges = rs, bound = bb, refframes = replicate (length rs) (Some k), blur = bl\<rparr>
   \<and> (\<exists>dm. deferred_mask_init ranges0 bb bl (RefInt k) = Inr dm
          \<and> refframes dm = replicate (length (ranges dm)) (Some k))"
  by (simp add: deferred_mask_init_def normalize_seq_single Let_def)

theorem deferred_mask_init_scalar_witness:
  "deferred_mask_init (Ranges [FrameInt 0, FrameInt 1, FrameNone]) None True (RefInt (- 1))
     = Inr \<lparr>ranges = [FrameInt 0, FrameInt 1, FrameNone], bound = None,
            refframes = [Some (- 1), Some (- 1), Some (- 1)], blur = True\<rparr>
   \<and> deferred_mask_init (Ranges []) None True (RefInt 4)
     = Inr \<lparr>ranges = [], bound = None, refframes = [], blur = True\<rparr>"
  using deferred_mask_init_scalar [of "[FrameInt 0, FrameInt 1, FrameNone]" None True "- 1"]
    deferred_mask_init_scalar [of "[]" None True 4]
  by (simp add: numeral_3_eq_3)

text \<open>
  C8. For a callable mask source, \<open>normalize_mask\<close> without a reference stream raises
  the missing-reference error; with a reference stream it calls the source on the target
  and the reference and converts the result to the target's format.
\<close>

theorem normalize_mask_callable:
  "normalize_mask det (MaskFunc fn) c None ridge
     = Inl (CustomValueError ''This mask function requires a ref to be specified!'')
   \<and> normalize_mask det (MaskFunc fn) c (Some r) ridge = Inr (depth_to det (fn c r) c)"
  by (simp add: normalize_mask_def)

theorem normalize_mask_callable_witness:
  "normalize_mask det0 (MaskFunc peak_fn) example_clip None False
     = Inl (CustomValueError ''This mask function requires a ref to be specified!'')
   \<and> normalize_mask det0 (MaskFunc peak_fn) example_clip (Some example_insert) True
     = Inr (peak_fn example_clip example_insert)"
  using normalize_mask_callable [of det0 peak_fn example_clip False]
    normalize_mask_callable [of det0 peak_fn example_clip True example_insert]
  by (simp add: det0_def)

text \<open>
  C10. With \<open>show_mask\<close> set, the result of \<open>replace_squaremask\<close>, error or mask, is the
  same for any two values of \<open>ranges\<close>.
\<close>

theorem replace_squaremask_show_mask:
  "replace_squaremask ext aka clipa clipb mask_params ranges1 blur_sigma iv True
     = replace_squaremask ext aka clipa clipb mask_params ranges2 blur_sigma iv True"
  by (simp add: replace_squaremask_def Let_def cong del: sum.case_cong_weak prod.case_cong_weak)

theorem replace_squaremask_show_mask_witness:
  "replace_squaremask ext0 True example_clip example_insert (2, 1, 1, 1) None None False True
     = replace_squaremask ext0 True example_clip example_insert (2, 1, 1, 1)
         (Some (Ranges [FrameInt 1, FrameTuple (Some 2) None])) None False True"
  by (rule replace_squaremask_show_mask)

lemma get_mask_no_refframes:
  "refframes dm = [] \<Longrightarrow> get_mask ext aka dm fn1 c ref = get_mask ext aka dm fn2 c ref"
  by (simp add: get_mask_def cong del: sum.case_cong_weak option.case_cong_weak)

text \<open>
  Without reference frames and without a bounding box, \<open>get_mask\<close> returns the zero
  accumulator for every strategy and every list of ranges.
\<close>

lemma get_mask_no_refframes_zero:
  assumes rf: "refframes self = []" and nb: "bound self = None"
    and cc: "check_variable c = Inr fc" and cr: "check_variable ref = Inr fr"
    and ne: "frames ref \<noteq> []"
  shows "get_mask ext aka self mask_fn c ref =
     Inr \<lparr>format = Some (fr\<lparr>color_family := GRAY, subsampling_h := 0, subsampling_w := 0\<rparr>),
          width = width ref, height = height ref,
          frames = replicate (length (frames ref))
                     [replicate (height ref) (replicate (width ref) 0)]\<rparr>"
proof -
  let ?gf = "fr\<lparr>color_family := GRAY, subsampling_h := 0, subsampling_w := 0\<rparr>"
  from cr have pos: "0 < width ref" "0 < height ref" by (simp_all add: check_variable_Inr)
  have pk: "0 \<le> get_peak_value ?gf"
    by (simp add: get_peak_value_def split: sample_type.splits)
  have bc: "std_BlankClip ref None None ?gf None None =
     Inr \<lparr>format = Some ?gf, width = width ref, height = height ref,
          frames = replicate (length (frames ref))
                     [replicate (height ref) (replicate (width ref) 0)]\<rparr>"
    using pos ne
    by (simp add: std_BlankClip_def num_frames_def blank_frame_def num_planes_def
        plane_width_def plane_height_def black_def)
  show ?thesis
    using pk by (simp add: get_mask_def rf nb cc cr bc std_Limiter_def)
qed


lemma nat_num_frames [simp]: "nat (num_frames c) = length (frames c)"
  by (simp add: num_frames_def)


lemma crop_plane_zero: "crop_plane 0 0 0 0 pl = pl"
  by (simp add: crop_plane_def)

lemma pad_plane_zero: "pad_plane w 0 0 0 0 col pl = pl"
  by (simp add: pad_plane_def)

lemma shift_zero: "shift_w f p 0 = 0" "shift_h f p 0 = 0"
  by (simp_all add: shift_w_def shift_h_def plane_width_def plane_height_def)

lemma region_rel_mask_fallback_identity:
  assumes "check_variable c = Inr f"
  shows "region_rel_mask False c 0 0 0 0 = Inr c"
proof -
  have planes: "map (\<lambda>fr. map (\<lambda>p. fr ! p) [0..<length fr]) (frames c) = frames c"
    by (simp add: map_nth)
  from assms have pos: "0 < width c" "0 < height c" and fc: "format c = Some f"
    by (simp_all add: check_variable_Inr)
  have crop: "std_Crop c 0 0 0 0 = Inr c"
    using pos by (simp add: std_Crop_def assms aligned_def shift_zero crop_plane_zero planes)
  have pad: "std_AddBorders c 0 0 0 0 = Inr c"
    by (simp add: std_AddBorders_def assms aligned_def shift_zero pad_plane_zero planes)
  show ?thesis by (simp add: region_rel_mask_def crop pad)
qed

lemma region_expr_zero_margins:
  "expr_check (Suc 0) 0 (get_region_expr c 0 0 0 0 (ReplaceInt 0) False)"
  "expr_eval e (get_region_expr c 0 0 0 0 (ReplaceInt 0) False) =
     (if env_X e < 0 \<or> env_X e > int (width c) - 1 \<or> env_Y e < 0 \<or> env_Y e > int (height c) - 1
      then env_x e else 0)"
  by (simp_all add: get_region_expr_def expr_eval_def expr_run_def)

lemma region_rel_mask_expr_zero:
  assumes "format c = Some f"
  shows "\<exists>m. region_rel_mask True c 0 0 0 0 = Inr m
           \<and> (\<forall>n < length (frames c). \<forall>p < length (frames c ! n).
                \<forall>y < length (frames c ! n ! p). \<forall>x < length (frames c ! n ! p ! y).
                  x < width c \<and> y < height c \<longrightarrow> pixel m n p x y = 0)"
  using assms
  by (simp add: region_rel_mask_def norm_expr_def region_expr_zero_margins pixel_def
      expr_plane_nth)

text \<open>
  C2. With all four margins 0, \<open>region_rel_mask\<close> returns the example stream unchanged on
  the crop-and-pad path, and a stream of zeros on the expression path: the expression
  built for \<open>replace = 0\<close> keeps the input outside the region and writes 0 inside it.
\<close>

theorem region_rel_mask_zero_margins_example:
  "region_rel_mask True example_clip 0 0 0 0 = Inr zero_mask
   \<and> zero_mask \<noteq> example_clip
   \<and> region_rel_mask False example_clip 0 0 0 0 = Inr example_clip"
  by code_simp

text \<open>
  C1. A \<open>DeferredMask\<close> built with the default range and no reference frames has an empty
  list of reference frames, and \<open>get_mask\<close> then returns the zero accumulator whatever
  the strategy computes: the loop runs over \<open>zip(ranges, refframes)\<close>, which is empty.
  The loop body on the pair of that range and an unset reference frame would give the
  mask of the strategy on the frames of the range.
\<close>

theorem get_mask_no_refframes_example:
  "deferred_mask_init (Range FrameNone) None False RefNone
     = Inr \<lparr>ranges = [FrameTuple (Some 0) None], bound = None, refframes = [], blur = False\<rparr>
   \<and> get_mask ext0 True
        \<lparr>ranges = [FrameTuple (Some 0) None], bound = None, refframes = [], blur = False\<rparr>
        peak_fn example_clip example_clip = Inr zero_mask
   \<and> accumulate ext0 peak_fn example_clip example_clip zero_mask
        [(FrameTuple (Some 0) None, None)] = Inr peak_mask"
  by code_simp


subsection \<open>Freezing one frame over a range\<close>









subsection \<open>The order of disjoint ranges\<close>

text \<open>
  A range whose normalised bounds lie inside the stream selects the frames from its
  start to its end, both included.
\<close>

lemma range_selects_inside:
  assumes "r \<noteq> FrameNone" and "normalize_range c r = (s, e)"
    and "0 \<le> s" and "s \<le> e" and "e < num_frames c"
  shows "range_selects c r n = (s \<le> int n \<and> int n \<le> e)"
  using assms by (auto simp: range_selects_def range_bounds_def slice_index_def)

text \<open>
  One turn of the loop of \<open>replace_ranges\<close> on two streams of the same format, dimensions
  and length: it replaces the frames the bounds select, or raises when one of its
  slices is empty.
\<close>

lemma block_frames:
  assumes "S \<le> E" and "E < N" and "length fa = N" and "length fb = N"
  shows "take S fa @ take (Suc E - S) (drop S fb) @ drop (Suc E) fa
           = map (\<lambda>n. if S \<le> n \<and> n \<le> E then fb ! n else fa ! n) [0..<N]"
proof (rule nth_equalityI)
  show "length (take S fa @ take (Suc E - S) (drop S fb) @ drop (Suc E) fa)
          = length (map (\<lambda>n. if S \<le> n \<and> n \<le> E then fb ! n else fa ! n) [0..<N])"
    using assms by simp
next
  fix i
  assume "i < length (take S fa @ take (Suc E - S) (drop S fb) @ drop (Suc E) fa)"
  with assms have i: "i < N" by simp
  consider (pre) "i < S" | (mid) "S \<le> i" "i \<le> E" | (post) "E < i" by linarith
  then show "(take S fa @ take (Suc E - S) (drop S fb) @ drop (Suc E) fa) ! i
          = map (\<lambda>n. if S \<le> n \<and> n \<le> E then fb ! n else fa ! n) [0..<N] ! i"
  proof cases
    case pre
    with assms i show ?thesis by (simp add: nth_append)
  next
    case mid
    then have "i - S < Suc E - S" by linarith
    with mid assms i show ?thesis by (simp add: nth_append)
  next
    case post
    with assms have a: "\<not> i < S" "\<not> i - S < Suc E - S" "i - S - (Suc E - S) = i - Suc E"
      "Suc E + (i - Suc E) = i" "Suc E \<le> N" "S \<le> N" "min N S = S" "min (N - S) (Suc E - S) = Suc E - S"
      by simp_all
    have "(take S fa @ take (Suc E - S) (drop S fb) @ drop (Suc E) fa) ! i
          = drop (Suc E) fa ! (i - Suc E)"
      using assms a by (simp add: nth_append)
    also have "\<dots> = fa ! i" using assms a i by simp
    finally show ?thesis using post i by simp
  qed
qed

lemma replace_range_cases:
  fixes a b :: clip and s e :: int
  defines "lo \<equiv> slice_index (num_frames a) (Some s) 0"
    and "hi \<equiv> slice_index (num_frames a) (Some (e + 1)) 0"
  assumes fmt: "format b = format a" "width b = width a" "height b = height a"
    and len: "length (frames b) = length (frames a)"
  shows "replace_range a b (s, e) =
     (if lo < hi \<and> (s \<noteq> 0 \<longrightarrow> 0 < lo) \<and> (e < num_frames a - 1 \<longrightarrow> hi < num_frames a)
      then Inr (a\<lparr>frames := map (\<lambda>n. if lo \<le> int n \<and> int n < hi then frames b ! n
                                      else frames a ! n)
                               [0..<length (frames a)]\<rparr>)
      else Inl (VSError ''Trim: invalid last frame specified''))"
proof -
  let ?N = "num_frames a"
  let ?T = "Inl (VSError ''Trim: invalid last frame specified'') :: error + clip"
  have nb: "num_frames b = ?N" using len by (simp add: num_frames_def)
  have N: "?N = int (length (frames a))" by (simp add: num_frames_def)
  have lo: "0 \<le> lo" "lo \<le> ?N" and hi: "0 \<le> hi" "hi \<le> ?N"
    by (simp_all add: lo_def hi_def slice_index_def N)
  have lo': "slice_index ?N (Some s) d = lo" and hi': "slice_index ?N (Some (e + 1)) d = hi" for d
    by (simp_all add: lo_def hi_def slice_index_def)
  have none: "slice_index ?N None d = d" for d by (simp add: slice_index_def)
  have eqb: "b\<lparr>frames := xs\<rparr> = a\<lparr>frames := xs\<rparr>" for xs
    using fmt by simp
  have tmp: "clip_slice b (Some s) (Some (e + 1))
      = (if hi \<le> lo then ?T
         else Inr (a\<lparr>frames := take (nat (hi - lo)) (drop (nat lo) (frames b))\<rparr>))"
    by (simp add: clip_slice_def nb lo' hi' Let_def eqb)
  have pre: "clip_slice a None (Some s)
      = (if lo \<le> 0 then ?T else Inr (a\<lparr>frames := take (nat lo) (frames a)\<rparr>))"
    by (simp add: clip_slice_def lo' none Let_def)
  have post0: "clip_slice a (Some (e + 1)) None
      = (if ?N \<le> hi then ?T
         else Inr (a\<lparr>frames := take (nat (?N - hi)) (drop (nat hi) (frames a))\<rparr>))"
    by (simp add: clip_slice_def hi' none Let_def)
  have "take (nat (?N - hi)) (drop (nat hi) (frames a)) = drop (nat hi) (frames a)"
    using hi by (simp add: N)
  with post0 have post: "clip_slice a (Some (e + 1)) None
      = (if ?N \<le> hi then ?T else Inr (a\<lparr>frames := drop (nat hi) (frames a)\<rparr>))"
    by simp
  have s0: "s = 0 \<Longrightarrow> lo = 0" by (simp add: lo_def slice_index_def N)
  have eN: "\<not> e < ?N - 1 \<Longrightarrow> hi = ?N" by (simp add: hi_def slice_index_def N)
  show ?thesis
  proof (cases "lo < hi")
    case False
    then show ?thesis unfolding replace_range_def prod.case tmp by simp
  next
    case True
    let ?S = "nat lo" and ?E = "nat hi - 1"
    from True lo hi have E: "?S \<le> ?E" "?E < length (frames a)" "Suc ?E = nat hi"
      "Suc ?E - ?S = nat (hi - lo)"
      by (simp_all add: N)
    have sel: "(\<lambda>n. if lo \<le> int n \<and> int n < hi then frames b ! n else frames a ! n)
             = (\<lambda>n. if ?S \<le> n \<and> n \<le> ?E then frames b ! n else frames a ! n)"
      using True lo hi by (intro ext) auto
    have B: "take (nat lo) (frames a) @ take (nat (hi - lo)) (drop (nat lo) (frames b))
               @ drop (nat hi) (frames a)
           = map (\<lambda>n. if lo \<le> int n \<and> int n < hi then frames b ! n else frames a ! n)
               [0..<length (frames a)]"
    proof -
      have d: "nat hi - nat lo = nat (hi - lo)" using lo True by simp
      show ?thesis using block_frames [OF E(1) E(2) refl len] unfolding sel E(3) d .
    qed
    have tmp': "clip_slice b (Some s) (Some (e + 1))
        = Inr (a\<lparr>frames := take (nat (hi - lo)) (drop (nat lo) (frames b))\<rparr>)"
      using True by (simp add: tmp)
    show ?thesis
    proof (cases "s = 0")
      case s: True
      show ?thesis
      proof (cases "e < ?N - 1")
        case e: True
        show ?thesis unfolding replace_range_def prod.case tmp' sum.case
          using s e True B s0 [OF s] hi by (simp add: post splice_def)
      next
        case e: False
        show ?thesis unfolding replace_range_def prod.case tmp' sum.case
          using s e True B s0 [OF s] eN [OF e] by (simp add: N)
      qed
    next
      case s: False
      show ?thesis
      proof (cases "e < ?N - 1")
        case e: True
        show ?thesis unfolding replace_range_def prod.case tmp' sum.case
          using s e True B lo hi by (auto simp: pre post splice_def)
      next
        case e: False
        show ?thesis unfolding replace_range_def prod.case tmp' sum.case
          using s e True B lo eN [OF e] by (auto simp: pre splice_def N)
      qed
    qed
  qed
qed

lemma normalize_range_length:
  "length (frames b) = length (frames a) \<Longrightarrow> normalize_range b r = normalize_range a r"
  by (simp add: normalize_range_def num_frames_def)

lemma replace_ranges_single:
  assumes fmt: "format b = format a" "width b = width a" "height b = height a"
    and len: "length (frames b) = length (frames a)"
  shows "replace_ranges a b (Range r) =
     (if range_ok a r
      then Inr (a\<lparr>frames := map (\<lambda>n. if range_selects a r n then frames b ! n else frames a ! n)
                               [0..<length (frames a)]\<rparr>)
      else Inl (VSError ''Trim: invalid last frame specified''))"
proof (cases "r = FrameNone")
  case True
  then show ?thesis by (simp add: replace_ranges_def range_selects_def range_ok_def map_nth)
next
  case False
  obtain s e where se: "normalize_range a r = (s, e)" by (cases "normalize_range a r")
  have rr: "replace_ranges a b (Range r) = replace_range a b (s, e)"
    using False se
    by (simp add: replace_ranges_def normalize_ranges_def normalize_range_length [OF len]
        split: sum.splits)
  show ?thesis unfolding rr replace_range_cases [OF fmt len]
    using False by (auto simp: range_selects_def range_ok_def range_bounds_def se)
qed

text \<open>
  The loop of \<open>get_mask\<close>, one pair at a time. A turn that returns has computed the looped
  mask of its pair, found it of the geometry of the accumulator, and written the maximum
  of the two on the frames its range selects.
\<close>

lemma accumulate_Cons:
  "accumulate ext mask_fn c ref hm (x # rest) =
     (case accumulate ext mask_fn c ref hm [x] of
        Inl e \<Rightarrow> Inl e
      | Inr h \<Rightarrow> accumulate ext mask_fn c ref h rest)"
proof (cases x)
  case (Pair r rf0)
  define rf where "rf = (case rf0 of
                  None \<Rightarrow> num_frames ref - 1
                | Some r \<Rightarrow> if r < 0 then num_frames ref - 1 + r else r)"
  show ?thesis unfolding Pair accumulate.simps Let_def rf_def [symmetric]
    by (cases "clip_getitem c rf"; cases "clip_getitem ref rf"; simp split: sum.splits)
qed

lemma accumulate_single:
  "accumulate ext mask_fn c ref hm [(r, rf0)] =
     (case range_mask ext mask_fn c ref rf0 (num_frames hm) of
        Inl e \<Rightarrow> Inl e
      | Inr looped \<Rightarrow>
          (case norm_expr2 hm looped [Clip_x, Clip_y, Op_max] of
             Inl e \<Rightarrow> Inl e
           | Inr combined \<Rightarrow> replace_ranges hm combined (Range r)))"
proof -
  define rf where "rf = (case rf0 of
                  None \<Rightarrow> num_frames ref - 1
                | Some r \<Rightarrow> if r < 0 then num_frames ref - 1 + r else r)"
  show ?thesis unfolding accumulate.simps range_mask_def Let_def rf_def [symmetric]
    by (cases "clip_getitem c rf"; cases "clip_getitem ref rf"; simp split: sum.splits)
qed


lemma accumulate_single_ok:
  assumes ok: "range_ok hm r"
    and l: "range_mask ext mask_fn c ref rf0 (num_frames hm) = Inr looped"
    and f: "format hm = Some f" "format looped \<noteq> None" "same_geometry hm looped"
  shows "accumulate ext mask_fn c ref hm [(r, rf0)]
           = Inr (combine_in_range (get_peak_value f) hm r looped)"
proof -
  let ?g = "\<lambda>n. map (\<lambda>p. expr_plane [Clip_x, Clip_y, Op_max] (get_peak_value f)
                            (frames hm ! n ! p) (frame_at looped n ! p))
                   [0..<length (frames hm ! n)]"
  let ?b = "hm\<lparr>frames := map ?g [0..<length (frames hm)]\<rparr>"
  have n2: "norm_expr2 hm looped [Clip_x, Clip_y, Op_max] = Inr ?b"
    using f by (simp add: norm_expr2_def)
  have "replace_ranges hm ?b (Range r) =
     (if range_ok hm r
      then Inr (hm\<lparr>frames := map (\<lambda>n. if range_selects hm r n then frames ?b ! n
                                        else frames hm ! n)
                                [0..<length (frames hm)]\<rparr>)
      else Inl (VSError ''Trim: invalid last frame specified''))"
    by (rule replace_ranges_single) simp_all
  with ok have rr: "replace_ranges hm ?b (Range r) =
     Inr (hm\<lparr>frames := map (\<lambda>n. if range_selects hm r n then frames ?b ! n else frames hm ! n)
                          [0..<length (frames hm)]\<rparr>)"
    by simp
  have "map (\<lambda>n. if range_selects hm r n then frames ?b ! n else frames hm ! n)
           [0..<length (frames hm)]
      = map (\<lambda>n. if range_selects hm r n then ?g n else frames hm ! n) [0..<length (frames hm)]"
    by (rule map_cong) simp_all
  with rr have "replace_ranges hm ?b (Range r)
      = Inr (combine_in_range (get_peak_value f) hm r looped)"
    by (simp add: combine_in_range_def)
  then show ?thesis by (simp add: accumulate_single l n2 del: accumulate.simps)
qed

lemma accumulate_single_Inr:
  assumes a: "accumulate ext mask_fn c ref hm [(r, rf0)] = Inr h"
  obtains looped f where "range_mask ext mask_fn c ref rf0 (num_frames hm) = Inr looped"
    and "format hm = Some f" and "format looped \<noteq> None" and "same_geometry hm looped"
    and "range_ok hm r"
    and "h = combine_in_range (get_peak_value f) hm r looped"
proof -
  from a obtain looped combined
    where l: "range_mask ext mask_fn c ref rf0 (num_frames hm) = Inr looped"
      and n: "norm_expr2 hm looped [Clip_x, Clip_y, Op_max] = Inr combined"
      and rr: "replace_ranges hm combined (Range r) = Inr h"
    by (auto simp: accumulate_single simp del: accumulate.simps split: sum.splits)
  have "\<exists>f. format hm = Some f \<and> format looped \<noteq> None \<and> same_geometry hm looped
          \<and> format combined = format hm \<and> width combined = width hm
          \<and> height combined = height hm \<and> length (frames combined) = length (frames hm)"
    using n by (auto simp: norm_expr2_def split: option.splits if_splits)
  then obtain f where f: "format hm = Some f" "format looped \<noteq> None" "same_geometry hm looped"
    and cb: "format combined = format hm" "width combined = width hm"
      "height combined = height hm" "length (frames combined) = length (frames hm)"
    by blast
  have "replace_ranges hm combined (Range r) =
     (if range_ok hm r
      then Inr (hm\<lparr>frames := map (\<lambda>n. if range_selects hm r n then frames combined ! n
                                        else frames hm ! n)
                                [0..<length (frames hm)]\<rparr>)
      else Inl (VSError ''Trim: invalid last frame specified''))"
    by (rule replace_ranges_single [OF cb])
  with rr have ok: "range_ok hm r" by (simp split: if_splits)
  from accumulate_single_ok [OF ok l f] a
  have "h = combine_in_range (get_peak_value f) hm r looped" by simp
  with l f ok that show thesis by blast
qed

text \<open>
  A turn keeps the format, dimensions, length and frame layout of the accumulator, so it
  changes neither what a later range selects nor whether a later turn returns; and two
  turns on disjoint ranges commute.
\<close>

lemma combine_in_range_fields [simp]:
  "format (combine_in_range p hm r l) = format hm"
  "width (combine_in_range p hm r l) = width hm"
  "height (combine_in_range p hm r l) = height hm"
  "length (frames (combine_in_range p hm r l)) = length (frames hm)"
  "num_frames (combine_in_range p hm r l) = num_frames hm"
  "clip.more (combine_in_range p hm r l) = clip.more hm"
  by (simp_all add: combine_in_range_def num_frames_def)

lemma expr_plane_lengths: "map length (expr_plane toks peak pl pl2) = map length pl"
  by (rule nth_equalityI) (simp_all add: expr_plane_def)

lemma combine_in_range_shape:
  assumes "n < length (frames hm)"
  shows "shape (frames (combine_in_range p hm r l) ! n) = shape (frames hm ! n)"
proof (cases "range_selects hm r n")
  case True
  have "map (map length)
          (map (\<lambda>q. expr_plane [Clip_x, Clip_y, Op_max] p (frames hm ! n ! q) (frame_at l n ! q))
             [0..<length (frames hm ! n)])
        = map (map length) (frames hm ! n)"
    by (rule nth_equalityI) (simp_all add: expr_plane_lengths)
  with True assms show ?thesis by (simp add: combine_in_range_def shape_def)
next
  case False
  with assms show ?thesis by (simp add: combine_in_range_def)
qed

lemma combine_in_range_geometry:
  "same_geometry (combine_in_range p hm r l) l' = same_geometry hm l'"
  by (simp add: same_geometry_def list_all_iff combine_in_range_shape)

lemma combine_in_range_normalize [simp]:
  "normalize_range (combine_in_range p hm r l) r' = normalize_range hm r'"
  by (rule normalize_range_length) simp

lemma combine_in_range_bounds [simp]:
  "range_bounds (combine_in_range p hm r l) r' = range_bounds hm r'"
  by (simp add: range_bounds_def)

lemma combine_in_range_selects [simp]:
  "range_selects (combine_in_range p hm r l) r' n = range_selects hm r' n"
  by (simp add: range_selects_def)

lemma combine_in_range_ok [simp]:
  "range_ok (combine_in_range p hm r l) r' = range_ok hm r'"
  by (simp add: range_ok_def)

lemma combine_in_range_commute:
  assumes d: "disjoint_ranges hm r1 r2"
  shows "combine_in_range p (combine_in_range p hm r1 l1) r2 l2
       = combine_in_range p (combine_in_range p hm r2 l2) r1 l1"
proof -
  have x: "n < length (frames hm) \<Longrightarrow> \<not> (range_selects hm r1 n \<and> range_selects hm r2 n)" for n
    using d by (simp add: disjoint_ranges_def list_all_iff)
  have "frames (combine_in_range p (combine_in_range p hm r1 l1) r2 l2)
      = frames (combine_in_range p (combine_in_range p hm r2 l2) r1 l1)"
  proof (rule nth_equalityI)
    show "length (frames (combine_in_range p (combine_in_range p hm r1 l1) r2 l2))
        = length (frames (combine_in_range p (combine_in_range p hm r2 l2) r1 l1))"
      by simp
  next
    fix n
    assume "n < length (frames (combine_in_range p (combine_in_range p hm r1 l1) r2 l2))"
    then have n: "n < length (frames hm)" by simp
    have a: "frames (combine_in_range p h r l) ! n =
        (if range_selects h r n
         then map (\<lambda>q. expr_plane [Clip_x, Clip_y, Op_max] p (frames h ! n ! q) (frame_at l n ! q))
                [0..<length (frames h ! n)]
         else frames h ! n)" if "length (frames h) = length (frames hm)" for h r l
      using n that by (simp add: combine_in_range_def)
    have a1: "frames (combine_in_range p hm r1 l1) ! n =
        (if range_selects hm r1 n
         then map (\<lambda>q. expr_plane [Clip_x, Clip_y, Op_max] p (frames hm ! n ! q) (frame_at l1 n ! q))
                [0..<length (frames hm ! n)]
         else frames hm ! n)"
      by (rule a) simp
    have a2: "frames (combine_in_range p hm r2 l2) ! n =
        (if range_selects hm r2 n
         then map (\<lambda>q. expr_plane [Clip_x, Clip_y, Op_max] p (frames hm ! n ! q) (frame_at l2 n ! q))
                [0..<length (frames hm ! n)]
         else frames hm ! n)"
      by (rule a) simp
    have a12: "frames (combine_in_range p (combine_in_range p hm r1 l1) r2 l2) ! n =
        (if range_selects hm r2 n
         then map (\<lambda>q. expr_plane [Clip_x, Clip_y, Op_max] p
                          (frames (combine_in_range p hm r1 l1) ! n ! q) (frame_at l2 n ! q))
                [0..<length (frames (combine_in_range p hm r1 l1) ! n)]
         else frames (combine_in_range p hm r1 l1) ! n)"
      using a [of "combine_in_range p hm r1 l1" r2 l2] by simp
    have a21: "frames (combine_in_range p (combine_in_range p hm r2 l2) r1 l1) ! n =
        (if range_selects hm r1 n
         then map (\<lambda>q. expr_plane [Clip_x, Clip_y, Op_max] p
                          (frames (combine_in_range p hm r2 l2) ! n ! q) (frame_at l1 n ! q))
                [0..<length (frames (combine_in_range p hm r2 l2) ! n)]
         else frames (combine_in_range p hm r2 l2) ! n)"
      using a [of "combine_in_range p hm r2 l2" r1 l1] by simp
    show "frames (combine_in_range p (combine_in_range p hm r1 l1) r2 l2) ! n
        = frames (combine_in_range p (combine_in_range p hm r2 l2) r1 l1) ! n"
    proof (cases "range_selects hm r1 n")
      case True
      with x [OF n] have "\<not> range_selects hm r2 n" by simp
      with True show ?thesis unfolding a12 a21 by (simp add: a1 a2)
    next
      case False
      then show ?thesis unfolding a12 a21 by (simp add: a1 a2)
    qed
  qed
  then show ?thesis
    by (intro clip.equality) simp_all
qed

lemma disjoint_ranges_sym: "disjoint_ranges hm r1 r2 = disjoint_ranges hm r2 r1"
  by (auto simp: disjoint_ranges_def list_all_iff)

lemma accumulate_swap:
  assumes d: "disjoint_ranges hm r1 r2"
    and a: "accumulate ext mask_fn c ref hm [(r1, rf1), (r2, rf2)] = Inr m"
  shows "accumulate ext mask_fn c ref hm [(r2, rf2), (r1, rf1)] = Inr m"
proof -
  from a obtain h1 where h1: "accumulate ext mask_fn c ref hm [(r1, rf1)] = Inr h1"
    and m: "accumulate ext mask_fn c ref h1 [(r2, rf2)] = Inr m"
    by (subst (asm) accumulate_Cons) (auto simp del: accumulate.simps split: sum.splits)
  from accumulate_single_Inr [OF h1] obtain l1 f
    where l1: "range_mask ext mask_fn c ref rf1 (num_frames hm) = Inr l1"
      and f: "format hm = Some f" and fl1: "format l1 \<noteq> None" and g1: "same_geometry hm l1"
      and ok1: "range_ok hm r1"
      and h1_eq: "h1 = combine_in_range (get_peak_value f) hm r1 l1"
    by blast
  from accumulate_single_Inr [OF m] obtain l2 f'
    where l2': "range_mask ext mask_fn c ref rf2 (num_frames h1) = Inr l2"
      and f': "format h1 = Some f'" and fl2: "format l2 \<noteq> None" and g2': "same_geometry h1 l2"
      and ok2': "range_ok h1 r2"
      and m_eq: "m = combine_in_range (get_peak_value f') h1 r2 l2"
    by blast
  from f f' have ff: "f' = f" by (simp add: h1_eq)
  from l2' have l2: "range_mask ext mask_fn c ref rf2 (num_frames hm) = Inr l2"
    by (simp add: h1_eq)
  from g2' have g2: "same_geometry hm l2" by (simp add: h1_eq combine_in_range_geometry)
  from ok2' have ok2: "range_ok hm r2" by (simp add: h1_eq)
  let ?h2 = "combine_in_range (get_peak_value f) hm r2 l2"
  have s2: "accumulate ext mask_fn c ref hm [(r2, rf2)] = Inr ?h2"
    by (rule accumulate_single_ok [OF ok2 l2 f fl2 g2])
  have s1: "accumulate ext mask_fn c ref ?h2 [(r1, rf1)]
      = Inr (combine_in_range (get_peak_value f) ?h2 r1 l1)"
    by (rule accumulate_single_ok) (simp_all add: ok1 l1 f fl1 g1 combine_in_range_geometry)
  have "accumulate ext mask_fn c ref hm [(r2, rf2), (r1, rf1)]
      = Inr (combine_in_range (get_peak_value f) ?h2 r1 l1)"
    by (subst accumulate_Cons) (simp add: s2 s1 del: accumulate.simps)
  also have "combine_in_range (get_peak_value f) ?h2 r1 l1 = m"
    using combine_in_range_commute [OF d, of "get_peak_value f" l1 l2]
    by (simp add: m_eq ff h1_eq)
  finally show ?thesis .
qed

text \<open>
  \<open>get_mask\<close> reads the ranges of a mask object only in the loop, which it runs on
  \<open>zip(ranges, refframes)\<close> when there is no reference frame: two mask objects that
  differ in the order of their ranges give the same result.
\<close>

lemma get_mask_ranges_order:
  assumes "deferred_mask_init (Ranges [r1, r2]) bb bl rf = Inr dm1"
    and "deferred_mask_init (Ranges [r2, r1]) bb bl rf = Inr dm2"
  shows "get_mask ext aka dm1 mask_fn c ref = get_mask ext aka dm2 mask_fn c ref"
proof -
  define rfs where "rfs = (case rf of RefNone \<Rightarrow> [] | RefList l \<Rightarrow> l
                           | RefInt k \<Rightarrow> normalize_seq [Some k] (Suc (Suc 0)))"
  from assms(1) have dm1: "dm1 = \<lparr>ranges = [r1, r2], bound = bb, refframes = rfs, blur = bl\<rparr>"
    by (cases rf) (auto simp: deferred_mask_init_def rfs_def Let_def split: if_splits)
  from assms(2) have dm2: "dm2 = \<lparr>ranges = [r2, r1], bound = bb, refframes = rfs, blur = bl\<rparr>"
    by (cases rf) (auto simp: deferred_mask_init_def rfs_def Let_def split: if_splits)
  show ?thesis
  proof (cases "rfs = []")
    case True
    then show ?thesis
      by (simp add: get_mask_def dm1 dm2 cong del: sum.case_cong_weak option.case_cong_weak)
  next
    case False
    then show ?thesis
      by (simp add: get_mask_def dm1 dm2 cong del: sum.case_cong_weak option.case_cong_weak)
  qed
qed

text \<open>
  C6. The loop of \<open>get_mask\<close>, from any accumulator, on two pairs of a range and a
  reference frame whose ranges are disjoint in the accumulator: it returns a mask for
  the pairs in the order \<open>[r1, r2]\<close> exactly when it returns one for the order
  \<open>[r2, r1]\<close>, and the two masks are equal, for every strategy and every pair of streams.
\<close>

theorem accumulate_order:
  assumes "disjoint_ranges hm r1 r2"
  shows "(accumulate ext mask_fn c ref hm [(r1, rf1), (r2, rf2)] = Inr m)
       = (accumulate ext mask_fn c ref hm [(r2, rf2), (r1, rf1)] = Inr m)"
proof
  assume "accumulate ext mask_fn c ref hm [(r1, rf1), (r2, rf2)] = Inr m"
  with assms show "accumulate ext mask_fn c ref hm [(r2, rf2), (r1, rf1)] = Inr m"
    by (rule accumulate_swap)
next
  from assms have d: "disjoint_ranges hm r2 r1" by (simp add: disjoint_ranges_sym)
  assume "accumulate ext mask_fn c ref hm [(r2, rf2), (r1, rf1)] = Inr m"
  with d show "accumulate ext mask_fn c ref hm [(r1, rf1), (r2, rf2)] = Inr m"
    by (rule accumulate_swap)
qed

theorem accumulate_order_witness:
  "disjoint_ranges zero_mask (FrameInt 0) (FrameInt 2)
   \<and> accumulate ext1 ref_fn example_clip example_source zero_mask
        [(FrameInt 0, Some 1), (FrameInt 2, None)] = Inr example_accumulated
   \<and> accumulate ext1 ref_fn example_clip example_source zero_mask
        [(FrameInt 2, None), (FrameInt 0, Some 1)] = Inr example_accumulated
   \<and> frames example_accumulated
        = [[[[111, 121, 131, 141], [151, 161, 171, 181], [191, 201, 211, 221]]],
           [[[0, 0, 0, 0], [0, 0, 0, 0], [0, 0, 0, 0]]],
           [[[112, 122, 132, 142], [152, 162, 172, 182], [192, 202, 212, 222]]]]"
proof -
  have d: "disjoint_ranges zero_mask (FrameInt 0) (FrameInt 2)" by code_simp
  have a: "accumulate ext1 ref_fn example_clip example_source zero_mask
        [(FrameInt 0, Some 1), (FrameInt 2, None)] = Inr example_accumulated"
    by code_simp
  have f: "frames example_accumulated
        = [[[[111, 121, 131, 141], [151, 161, 171, 181], [191, 201, 211, 221]]],
           [[[0, 0, 0, 0], [0, 0, 0, 0], [0, 0, 0, 0]]],
           [[[112, 122, 132, 142], [152, 162, 172, 182], [192, 202, 212, 222]]]]"
    by code_simp
  from accumulate_order [OF d, of ext1 ref_fn example_clip example_source "Some 1" None
      example_accumulated] a
  have "accumulate ext1 ref_fn example_clip example_source zero_mask
        [(FrameInt 2, None), (FrameInt 0, Some 1)] = Inr example_accumulated"
    by simp
  with d a f show ?thesis by simp
qed

end
